theory Spec2Isabelle
  imports Main "HOL-Library.Char_ord" "HOL-Library.List_Lexorder"
begin

section \<open>Tables\<close>

text \<open>
  A pandas column holds values and the missing value NaN. A cell that the scripts only
  carry, compare or relabel is modelled by the text Python's \<open>str\<close> gives for its
  value: a \<open>cell\<close> is a \<open>string option\<close>, \<open>None\<close> being NaN. Where a script
  calls an operation that tells a string from a number (the \<open>join\<close> of the product
  fields), a present value is a \<open>val\<close>: a string, or a number, carried as the text
  \<open>str\<close> gives for it.

  The column \<open>Application_No\<close> is rewritten by \<open>astype(str)\<close>, the product fields
  become texts in the aggregation, and \<open>Submission_Date\<close> is text in the merge script
  and a date in the dashboard: these are type parameters of the row records.
\<close>

type_synonym cell = "string option"

datatype val = Str string | Num string

text \<open>\<open>sub\<close>, lines 27 and 32-38 of \<open>data/merge_fda_data.py\<close>.\<close>

record ('k, 'd) submission =
  Application_No :: 'k
  Submission_Type :: cell
  Submission_No :: cell
  Status :: cell
  Submission_Date :: 'd
  ReviewPriority :: cell

text \<open>\<open>apps\<close>, lines 28 and 40-43.\<close>

record 'k application =
  apps_Application_No :: 'k
  apps_Sponsor :: cell

text \<open>
  \<open>prods\<close>, lines 29 and 45-47: with fields of type \<open>val\<close> as it is read, with fields
  of type \<open>string\<close> once it is aggregated.
\<close>

record ('k, 'v) product =
  prods_Application_No :: 'k
  prods_Form :: "'v option"
  prods_Strength :: "'v option"
  prods_DrugName :: "'v option"

text \<open>\<open>df\<close> after the first merge (line 69) and after the second (line 71).\<close>

record ('k, 'd) sponsored = "('k, 'd) submission" +
  Sponsor :: cell

record ('k, 'd) merged = "('k, 'd) sponsored" +
  Form :: cell
  Strength :: cell
  DrugName :: cell

text \<open>
  The exceptions of the two scripts, each with what \<open>print\<close> shows of it. The handlers
  of lines 92-99 of the merge script tell the first three apart; \<open>Exception\<close> is any
  exception the model does not name.
\<close>

datatype exn =
  FileNotFoundError string
| ParserError string
| KeyError "string list"
| TypeError string
| AttributeError string
| ValueError string
| StreamlitAPIException string
| Exception string

section \<open>The pandas operations the scripts call\<close>

text \<open>
  The installed pandas is not fixed by the repository, and \<open>astype(str)\<close> depends on
  it: before pandas 3 a missing value becomes the text \<open>nan\<close>, from pandas 3 on it
  stays missing.
\<close>

datatype pandas = Before_3 | From_3

definition astype_str :: "pandas \<Rightarrow> cell \<Rightarrow> cell" where
  "astype_str pd c =
     (case c of
        Some s \<Rightarrow> Some s
      | None \<Rightarrow> (case pd of Before_3 \<Rightarrow> Some ''nan'' | From_3 \<Rightarrow> None))"

text \<open>\<open>Series.dropna()\<close>: the present values, in order.\<close>

fun dropna :: "'a option list \<Rightarrow> 'a list" where
  "dropna [] = []"
| "dropna (None # xs) = dropna xs"
| "dropna (Some x # xs) = x # dropna xs"

text \<open>
  Python's \<open>sep.join(xs)\<close>: on strings, \<open>join\<close>; on values, \<open>TypeError\<close> at the first
  item that is not a string.
\<close>

fun join :: "string \<Rightarrow> string list \<Rightarrow> string" where
  "join sep [] = []"
| "join sep [x] = x"
| "join sep (x # y # ys) = x @ sep @ join sep (y # ys)"

fun first_number :: "val list \<Rightarrow> string option" where
  "first_number [] = None"
| "first_number (Str s # xs) = first_number xs"
| "first_number (Num t # xs) = Some t"

fun strings :: "val list \<Rightarrow> string list" where
  "strings [] = []"
| "strings (Str s # xs) = s # strings xs"
| "strings (Num t # xs) = strings xs"

definition py_join :: "string \<Rightarrow> val list \<Rightarrow> exn + string" where
  "py_join sep xs =
     (case first_number xs of
        Some t \<Rightarrow> Inl (TypeError t)
      | None \<Rightarrow> Inr (join sep (strings xs)))"

text \<open>
  \<open>Series.unique()\<close>: the distinct values in order of first appearance (NaN is a value
  like any other here).
\<close>

fun unique_from :: "'a list \<Rightarrow> 'a list \<Rightarrow> 'a list" where
  "unique_from seen [] = []"
| "unique_from seen (x # xs) =
     (if x \<in> set seen then unique_from seen xs else x # unique_from (x # seen) xs)"

definition unique :: "'a list \<Rightarrow> 'a list" where
  "unique xs = unique_from [] xs"

text \<open>
  \<open>left.merge(right, on="Application_No", how="left")\<close>: the left rows in their order;
  each is paired with every right row of the same key, in the right table's order, and
  appears once with the right columns missing when no right row has its key. A missing
  key matches a missing key. \<open>mk\<close> builds the joined row.
\<close>

definition merge_left ::
  "('l \<Rightarrow> 'k) \<Rightarrow> ('r \<Rightarrow> 'k) \<Rightarrow> ('l \<Rightarrow> 'r option \<Rightarrow> 'o) \<Rightarrow> 'l list \<Rightarrow> 'r list \<Rightarrow> 'o list" where
  "merge_left kl kr mk ls rs =
     concat (map (\<lambda>l. case filter (\<lambda>r. kr r = kl l) rs of
                         [] \<Rightarrow> [mk l None]
                       | ms \<Rightarrow> map (\<lambda>r. mk l (Some r)) ms) ls)"

text \<open>
  \<open>Series.replace(d)\<close> with a dict of strings: a value that is a key of \<open>d\<close> becomes
  its entry, every other value and NaN stay.
\<close>

definition replace_dict :: "(string \<times> string) list \<Rightarrow> cell \<Rightarrow> cell" where
  "replace_dict d c =
     (case c of None \<Rightarrow> None
      | Some s \<Rightarrow> (case map_of d s of None \<Rightarrow> Some s | Some l \<Rightarrow> Some l))"

text \<open>\<open>Series.fillna(v)\<close> on a cell.\<close>

definition fillna :: "string \<Rightarrow> cell \<Rightarrow> cell" where
  "fillna v c = (case c of None \<Rightarrow> Some v | Some s \<Rightarrow> Some s)"

text \<open>
  \<open>s.replace(old, new)\<close> for a pattern \<open>old\<close> of one character, which is what
  \<open>.str.replace(";", " / ", regex=False)\<close> applies to every present value.
\<close>

fun str_replace :: "char \<Rightarrow> string \<Rightarrow> string \<Rightarrow> string" where
  "str_replace old new [] = []"
| "str_replace old new (c # cs) =
     (if c = old then new @ str_replace old new cs else c # str_replace old new cs)"

definition series_str_replace :: "char \<Rightarrow> string \<Rightarrow> cell \<Rightarrow> cell" where
  "series_str_replace old new c = map_option (str_replace old new) c"

text \<open>A list of results in one: the first exception, or all the values.\<close>

fun sequence :: "(exn + 'a) list \<Rightarrow> exn + 'a list" where
  "sequence [] = Inr []"
| "sequence (Inl e # rs) = Inl e"
| "sequence (Inr x # rs) = (case sequence rs of Inl e \<Rightarrow> Inl e | Inr xs \<Rightarrow> Inr (x # xs))"

section \<open>The merge script, lines 49-84\<close>

text \<open>Lines 50-52: the key of each table through \<open>astype(str)\<close>.\<close>

definition sub_astype :: "pandas \<Rightarrow> (cell, 'd) submission \<Rightarrow> (cell, 'd) submission" where
  "sub_astype pd s = s\<lparr>Application_No := astype_str pd (Application_No s)\<rparr>"

definition apps_astype :: "pandas \<Rightarrow> cell application \<Rightarrow> cell application" where
  "apps_astype pd a = a\<lparr>apps_Application_No := astype_str pd (apps_Application_No a)\<rparr>"

definition prods_astype :: "pandas \<Rightarrow> (cell, 'v) product \<Rightarrow> (cell, 'v) product" where
  "prods_astype pd p = p\<lparr>prods_Application_No := astype_str pd (prods_Application_No p)\<rparr>"

text \<open>
  Lines 55-59: \<open>groupby("Application_No").agg(...).reset_index()\<close>. One group per key
  that is not missing (\<open>groupby\<close> drops the rows with a missing key), the keys in
  ascending order (\<open>groupby\<close> sorts them; Python compares strings by code point,
  lexicographically). Each field is the lambda of the source applied to the column of
  each group, \<open>", ".join(x.dropna())\<close>, which raises on a number; the columns are
  aggregated one after the other, and the first exception ends the aggregation.
\<close>

definition group_keys :: "(cell, 'v) product list \<Rightarrow> string list" where
  "group_keys prods = sort (remdups (dropna (map prods_Application_No prods)))"

definition group_of :: "(cell, 'v) product list \<Rightarrow> string \<Rightarrow> (cell, 'v) product list" where
  "group_of prods k = filter (\<lambda>p. prods_Application_No p = Some k) prods"

definition agg_join :: "val option list \<Rightarrow> exn + string" where
  "agg_join x = py_join '', '' (dropna x)"

definition agg_column ::
  "((cell, val) product \<Rightarrow> val option) \<Rightarrow> (cell, val) product list \<Rightarrow> exn + string list" where
  "agg_column f prods =
     sequence (map (\<lambda>k. agg_join (map f (group_of prods k))) (group_keys prods))"

definition groupby_agg :: "(cell, val) product list \<Rightarrow> exn + (cell, string) product list" where
  "groupby_agg prods =
     (case agg_column prods_Form prods of Inl e \<Rightarrow> Inl e | Inr forms \<Rightarrow>
      case agg_column prods_Strength prods of Inl e \<Rightarrow> Inl e | Inr strengths \<Rightarrow>
      case agg_column prods_DrugName prods of Inl e \<Rightarrow> Inl e | Inr names \<Rightarrow>
        Inr (map (\<lambda>(k, f, s, d).
                    \<lparr>prods_Application_No = Some k, prods_Form = Some f,
                     prods_Strength = Some s, prods_DrugName = Some d\<rparr>)
               (zip (group_keys prods) (zip forms (zip strengths names)))))"

text \<open>Line 69: \<open>sub.merge(apps, on="Application_No", how="left")\<close>.\<close>

definition add_sponsor ::
  "(cell, 'd) submission \<Rightarrow> cell application option \<Rightarrow> (cell, 'd) sponsored" where
  "add_sponsor s a =
     \<lparr>Application_No = Application_No s,
      Submission_Type = Submission_Type s, Submission_No = Submission_No s,
      Status = Status s, Submission_Date = Submission_Date s,
      ReviewPriority = ReviewPriority s,
      Sponsor = (case a of None \<Rightarrow> None | Some r \<Rightarrow> apps_Sponsor r)\<rparr>"

definition merge_apps ::
  "(cell, 'd) submission list \<Rightarrow> cell application list \<Rightarrow> (cell, 'd) sponsored list" where
  "merge_apps sub apps = merge_left Application_No apps_Application_No add_sponsor sub apps"

text \<open>Line 71: \<open>df.merge(prods, on="Application_No", how="left")\<close>.\<close>

definition add_products ::
  "(cell, 'd) sponsored \<Rightarrow> (cell, string) product option \<Rightarrow> (cell, 'd) merged" where
  "add_products s p =
     \<lparr>Application_No = Application_No s,
      Submission_Type = Submission_Type s, Submission_No = Submission_No s,
      Status = Status s, Submission_Date = Submission_Date s,
      ReviewPriority = ReviewPriority s, Sponsor = Sponsor s,
      Form = (case p of None \<Rightarrow> None | Some r \<Rightarrow> prods_Form r),
      Strength = (case p of None \<Rightarrow> None | Some r \<Rightarrow> prods_Strength r),
      DrugName = (case p of None \<Rightarrow> None | Some r \<Rightarrow> prods_DrugName r)\<rparr>"

definition merge_prods ::
  "(cell, 'd) sponsored list \<Rightarrow> (cell, string) product list \<Rightarrow> (cell, 'd) merged list" where
  "merge_prods df prods = merge_left Application_No prods_Application_No add_products df prods"

text \<open>Lines 75-79.\<close>

definition submission_type_map :: "(string \<times> string) list" where
  "submission_type_map =
     [(''AP'', ''Abbreviated NDA''), (''TP'', ''Therapeutic''),
      (''ORIG'', ''Original''), (''SUPPL'', ''Supplemental'')]"

definition clean_submission_type :: "(cell, 'd) merged \<Rightarrow> (cell, 'd) merged" where
  "clean_submission_type r =
     r\<lparr>Submission_Type := replace_dict submission_type_map (Submission_Type r)\<rparr>"

text \<open>
  Lines 83-84. \<open>Form\<close> is a column of \<open>df\<close> after line 71, so the branch is always
  taken.
\<close>

definition clean_form_cell :: "cell \<Rightarrow> cell" where
  "clean_form_cell c = series_str_replace CHR '';'' '' / '' (fillna [] c)"

definition clean_form :: "(cell, 'd) merged \<Rightarrow> (cell, 'd) merged" where
  "clean_form r = r\<lparr>Form := clean_form_cell (Form r)\<rparr>"

text \<open>Lines 69-84: the two merges and the two rewrites, on the aggregated products.\<close>

definition merge_and_clean ::
  "(cell, 'd) submission list \<Rightarrow> cell application list \<Rightarrow> (cell, string) product list
     \<Rightarrow> (cell, 'd) merged list" where
  "merge_and_clean sub apps prods =
     (let df1 = merge_apps sub apps;
          df2 = merge_prods df1 prods;
          df3 = map clean_submission_type df2
      in map clean_form df3)"

text \<open>
  Lines 49-84: from the three projected tables \<open>sub\<close>, \<open>apps\<close>, \<open>prods\<close> to the frame
  \<open>df\<close> that line 89 writes, or the exception that the aggregation raises.
\<close>

definition Merger ::
  "pandas \<Rightarrow> (cell, 'd) submission list \<Rightarrow> cell application list \<Rightarrow> (cell, val) product list
     \<Rightarrow> exn + (cell, 'd) merged list" where
  "Merger pd sub apps prods =
     (case groupby_agg (map (prods_astype pd) prods) of
        Inl e \<Rightarrow> Inl e
      | Inr prods2 \<Rightarrow>
          Inr (merge_and_clean (map (sub_astype pd) sub) (map (apps_astype pd) apps) prods2))"

text \<open>
  Whether the product fields of a row hold no number; and the row of the aggregated
  table for a key when the fields of its group hold none.
\<close>

fun is_text :: "val option \<Rightarrow> bool" where
  "is_text (Some (Num t)) = False"
| "is_text c = True"

definition text_fields :: "(cell, val) product \<Rightarrow> bool" where
  "text_fields p = (is_text (prods_Form p) \<and> is_text (prods_Strength p) \<and> is_text (prods_DrugName p))"

definition joined :: "((cell, val) product \<Rightarrow> val option) \<Rightarrow> (cell, val) product list \<Rightarrow> string \<Rightarrow> string" where
  "joined f prods k = join '', '' (strings (dropna (map f (group_of prods k))))"

definition group_row :: "(cell, val) product list \<Rightarrow> string \<Rightarrow> (cell, string) product" where
  "group_row prods k =
     \<lparr>prods_Application_No = Some k,
      prods_Form = Some (joined prods_Form prods k),
      prods_Strength = Some (joined prods_Strength prods k),
      prods_DrugName = Some (joined prods_DrugName prods k)\<rparr>"

text \<open>
  The right rows a left row of key \<open>k\<close> is joined with: every right row of that key,
  or the missing row when there is none.
\<close>

definition matches :: "('r \<Rightarrow> 'k) \<Rightarrow> 'r list \<Rightarrow> 'k \<Rightarrow> 'r option set" where
  "matches kr rs k =
     (if k \<in> kr ` set rs then Some ` {r \<in> set rs. kr r = k} else {None})"

text \<open>
  The output row built from the submission row \<open>s\<close>, the matched application row \<open>a\<close>
  and the matched aggregated product row \<open>p\<close> (lines 50 and 69-84 on one row).
\<close>

definition output_row ::
  "pandas \<Rightarrow> (cell, 'd) submission \<Rightarrow> cell application option \<Rightarrow> (cell, string) product option
     \<Rightarrow> (cell, 'd) merged" where
  "output_row pd s a p =
     clean_form (clean_submission_type (add_products (add_sponsor (sub_astype pd s) a) p))"

section \<open>The merge script as a run, lines 4-99\<close>

text \<open>
  What \<open>read_csv\<close> returns: the column names and the rows, each row with one cell per
  column.
\<close>

record frame =
  columns :: "string list"
  rows :: "val option list list"

text \<open>
  The surroundings of a run: whether \<open>openpyxl\<close> can be imported; the pandas that is
  installed; for each source file what \<open>read_csv\<close> does with it (it raises or returns a
  frame); what is at the output path before the run; whether \<open>to_excel\<close> raises, in
  which case the library leaves something at the output path that the script does not
  control; and whether the \<open>print\<close> of line 90 raises, whose text holds a character
  outside ASCII that the encoding of the console may not have.
\<close>

record env =
  openpyxl_installed :: bool
  pandas_version :: pandas
  Submissions_txt :: "exn + frame"
  Applications_txt :: "exn + frame"
  Products_txt :: "exn + frame"
  output_file :: "(cell, cell) merged list option"
  to_excel_fault :: "(exn \<times> (cell, cell) merged list option) option"
  print_fault :: "exn option"

















section \<open>The dashboard, \<open>app.py\<close>\<close>

text \<open>
  \<open>read_excel(..., parse_dates=["Submission_Date"])\<close> gives the merged columns. It
  converts \<open>Submission_Date\<close> to timestamps when every present value of the column
  parses as a date; when one does not, the column stays as it was read. A date cell is
  missing, a timestamp, or a value that did not parse; the column is a column of
  timestamps when no cell of it is of the last kind. The frame that \<open>read_excel\<close>
  returns is the input of the model.
\<close>

datatype timestamp = Timestamp (year: int) (month: nat) (day: nat)

datatype date = Parsed timestamp | Unparsed string

record ('k, 'd) loaded = "('k, 'd) merged" +
  Submission_Year :: "int option"

text \<open>\<open>Series.map(d)\<close> with a dict: the entry of a key, NaN for everything else.\<close>

definition series_map :: "(string \<times> string) list \<Rightarrow> cell \<Rightarrow> cell" where
  "series_map d c = (case c of None \<Rightarrow> None | Some s \<Rightarrow> map_of d s)"

text \<open>\<open>a.fillna(b)\<close> with a series \<open>b\<close>, on one row: \<open>b\<close>'s value where \<open>a\<close>'s is missing.\<close>

definition fillna_series :: "cell \<Rightarrow> cell \<Rightarrow> cell" where
  "fillna_series other c = (case c of None \<Rightarrow> other | Some v \<Rightarrow> Some v)"

text \<open>Lines 13-16 and 18-23: the two dicts.\<close>

definition status_labels :: "(string \<times> string) list" where
  "status_labels = [(''AP'', ''Approved''), (''TA'', ''Tentative Approval'')]"

definition type_labels :: "(string \<times> string) list" where
  "type_labels =
     [(''ORIG'', ''Original''), (''SUPPL'', ''Supplemental''),
      (''AP'', ''Abbreviated NDA''), (''TP'', ''Therapeutic'')]"

text \<open>
  Line 27: \<open>.dt.year\<close>, which raises on a column that is not one of timestamps, and the
  year column added to a row.
\<close>

fun datetimelike :: "date option \<Rightarrow> bool" where
  "datetimelike (Some (Unparsed s)) = False"
| "datetimelike d = True"

fun dt_year :: "date option \<Rightarrow> int option" where
  "dt_year (Some (Parsed t)) = Some (year t)"
| "dt_year d = None"

definition with_year :: "('k, date option) merged \<Rightarrow> ('k, date option) loaded" where
  "with_year r =
     \<lparr>Application_No = Application_No r,
      Submission_Type = Submission_Type r, Submission_No = Submission_No r,
      Status = Status r, Submission_Date = Submission_Date r,
      ReviewPriority = ReviewPriority r, Sponsor = Sponsor r,
      Form = Form r, Strength = Strength r, DrugName = DrugName r,
      Submission_Year = dt_year (Submission_Date r)\<rparr>"

text \<open>\<open>load_data\<close>, lines 12-28, on the frame that line 11 read.\<close>

definition load_data ::
  "('k, date option) merged list \<Rightarrow> exn + ('k, date option) loaded list" where
  "load_data df0 =
     (let df1 = filter (\<lambda>r. Submission_Date r \<noteq> None) df0;
          df2 = map (\<lambda>r. r\<lparr>Status :=
                   fillna_series (Status r) (series_map status_labels (Status r))\<rparr>) df1;
          df3 = map (\<lambda>r. r\<lparr>Submission_Type :=
                   fillna_series (Submission_Type r)
                     (series_map type_labels (Submission_Type r))\<rparr>) df2;
          df4 = map (\<lambda>r. r\<lparr>Sponsor := fillna ''Unknown'' (Sponsor r)\<rparr>) df3;
          df5 = map (\<lambda>r. r\<lparr>DrugName := fillna ''Unknown'' (DrugName r)\<rparr>) df4
      in if list_all (\<lambda>r. datetimelike (Submission_Date r)) df5
         then Inr (map with_year df5)
         else Inl (AttributeError ''Can only use .dt accessor with datetimelike values''))"

text \<open>
  Lines 35-41: the sidebar. Each widget returns what the user has chosen; the record
  holds the five choices. The options offered and the choices made when the user
  touches nothing are computed from the loaded frame.
\<close>

record selection =
  search :: string
  years :: "int \<times> int"
  selected_status :: "cell list"
  selected_sponsors :: "cell list"
  selected_drugs :: "cell list"

definition sponsor_options :: "('k, 'd) loaded list \<Rightarrow> cell list" where
  "sponsor_options df = take 30 (unique (map Sponsor df))"

definition sponsor_default :: "('k, 'd) loaded list \<Rightarrow> cell list" where
  "sponsor_default df = take 10 (unique (map Sponsor df))"

definition drug_options :: "('k, 'd) loaded list \<Rightarrow> cell list" where
  "drug_options df = take 50 (unique (map DrugName df))"

definition drug_default :: "('k, 'd) loaded list \<Rightarrow> cell list" where
  "drug_default df = take 5 (unique (map DrugName df))"

definition status_options :: "('k, 'd) loaded list \<Rightarrow> cell list" where
  "status_options df = unique (map Status df)"

text \<open>
  Lines 36-37: the year slider, from \<open>int(df["Submission_Year"].min())\<close> to
  \<open>int(df["Submission_Year"].max())\<close>, both ends selected. On a frame without a year
  \<open>min()\<close> is NaN and \<open>int\<close> raises; on a frame with one year only the two ends are
  equal and \<open>slider\<close> raises. The script stops there: there is no page then.
\<close>

definition year_slider :: "('k, 'd) loaded list \<Rightarrow> exn + (int \<times> int)" where
  "year_slider df =
     (case dropna (map Submission_Year df) of
        [] \<Rightarrow> Inl (ValueError ''cannot convert float NaN to integer'')
      | y # ys \<Rightarrow>
          (let lo = fold min ys y; hi = fold max ys y
           in if lo < hi then Inr (lo, hi)
              else Inl (StreamlitAPIException ''Slider min_value must be less than the max_value'')))"

definition default_selection :: "('k, 'd) loaded list \<Rightarrow> exn + selection" where
  "default_selection df =
     (case year_slider df of
        Inl x \<Rightarrow> Inl x
      | Inr b \<Rightarrow>
          Inr \<lparr>search = [], years = b, selected_status = status_options df,
               selected_sponsors = sponsor_default df, selected_drugs = drug_default df\<rparr>)"

text \<open>\<open>Series.between(lo, hi)\<close>, both ends included; a missing value is not between.\<close>

definition between :: "int \<Rightarrow> int \<Rightarrow> int option \<Rightarrow> bool" where
  "between lo hi y = (case y of None \<Rightarrow> False | Some v \<Rightarrow> lo \<le> v \<and> v \<le> hi)"

text \<open>
  Lines 44-55. \<open>contains pat s\<close> stands for pandas'
  \<open>str.contains(pat, case=False)\<close> on one present value, a case-insensitive regular
  expression search that the model takes as a parameter; on a missing value the search
  does not match.
\<close>

definition str_contains :: "(string \<Rightarrow> string \<Rightarrow> bool) \<Rightarrow> string \<Rightarrow> cell \<Rightarrow> bool" where
  "str_contains contains pat c = (case c of None \<Rightarrow> False | Some s \<Rightarrow> contains pat s)"

definition filtered ::
  "pandas \<Rightarrow> (string \<Rightarrow> string \<Rightarrow> bool) \<Rightarrow> (cell, 'd) loaded list \<Rightarrow> selection
     \<Rightarrow> (cell, 'd) loaded list" where
  "filtered pd contains df sel =
     (let f = filter (\<lambda>r. between (fst (years sel)) (snd (years sel)) (Submission_Year r) \<and>
                        Status r \<in> set (selected_status sel) \<and>
                        Sponsor r \<in> set (selected_sponsors sel) \<and>
                        DrugName r \<in> set (selected_drugs sel)) df
      in if search sel \<noteq> []
         then filter (\<lambda>r. str_contains contains (search sel)
                            (astype_str pd (Application_No r)) \<or>
                          str_contains contains (search sel) (DrugName r)) f
         else f)"

text \<open>
  Lines 61-105: what the page shows. The four metrics, the table and the CSV export
  are computed here; the four charts are figures that the plotting library draws from
  the filtered frame, \<open>charts\<close> standing for lines 69-98.
\<close>

record ('r, 'c) page =
  total_submissions :: nat
  unique_sponsors :: nat
  approved :: nat
  unique_drugs :: nat
  figures :: 'c
  table :: "'r list"
  csv :: "'r list"

definition render ::
  "(('k, 'd) loaded list \<Rightarrow> 'c) \<Rightarrow> ('k, 'd) loaded list \<Rightarrow> (('k, 'd) loaded, 'c) page" where
  "render charts f =
     \<lparr>total_submissions = length f,
      unique_sponsors = length (unique (dropna (map Sponsor f))),
      approved = length (filter (\<lambda>r. Status r = Some ''Approved'') f),
      unique_drugs = length (unique (dropna (map DrugName f))),
      figures = charts f,
      table = f,
      csv = f\<rparr>"

definition dashboard ::
  "pandas \<Rightarrow> (string \<Rightarrow> string \<Rightarrow> bool) \<Rightarrow> ((cell, 'd) loaded list \<Rightarrow> 'c)
     \<Rightarrow> (cell, 'd) loaded list \<Rightarrow> selection \<Rightarrow> ((cell, 'd) loaded, 'c) page" where
  "dashboard pd contains charts df sel = render charts (filtered pd contains df sel)"

section \<open>The measures of the specification\<close>

text \<open>
  The aggregate as the specification words it, to compare with \<open>agg_join\<close>: the
  distinct present values in first-seen order, joined with \<open>", "\<close>.
\<close>

definition spec_agg_join :: "val option list \<Rightarrow> string" where
  "spec_agg_join x = join '', '' (unique (strings (dropna x)))"

text \<open>
  Python's \<open>s.split(sep)\<close> for a non-empty \<open>sep\<close>, by which the specification
  counts the components of a \<open>Form\<close> value: the text is cut at every occurrence of
  \<open>sep\<close>, found from the left and without overlap. (With an empty \<open>sep\<close> Python
  raises; the function is only used with \<open>";"\<close> and \<open>" / "\<close>.)
\<close>

fun str_split :: "string \<Rightarrow> string \<Rightarrow> string list" where
  "str_split sep [] = [[]]"
| "str_split sep (c # cs) =
     (if sep \<noteq> [] \<and> take (length sep) (c # cs) = sep
      then [] # str_split sep (drop (length sep - 1) cs)
      else (case str_split sep cs of [] \<Rightarrow> [[c]] | w # ws \<Rightarrow> (c # w) # ws))"

text \<open>
  Whether no \<open>/\<close> of a text stands between two characters that are each a space or a
  \<open>;\<close>: the texts in which \<open>" / "\<close> can only arise from a replaced \<open>;\<close>.
\<close>

fun free_slashes :: "string \<Rightarrow> bool" where
  "free_slashes (a # b # c # cs) =
     (\<not> ((a = CHR '' '' \<or> a = CHR '';'') \<and> b = CHR ''/'' \<and> (c = CHR '' '' \<or> c = CHR '';''))
      \<and> free_slashes (b # c # cs))"
| "free_slashes cs = True"


section \<open>Example tables\<close>

text \<open>
  The example of the specification: one submission of application 12345, its
  application row and one product row; and a second submission whose key occurs in
  neither of the other tables.
\<close>

definition example_sub :: "(cell, cell) submission list" where
  "example_sub =
     [\<lparr>Application_No = Some ''12345'', Submission_Type = Some ''SUPPL'',
       Submission_No = Some ''1'', Status = Some ''AP'',
       Submission_Date = Some ''1999-01-01'', ReviewPriority = Some ''STANDARD''\<rparr>,
      \<lparr>Application_No = Some ''777'', Submission_Type = Some ''ORIG'',
       Submission_No = Some ''1'', Status = Some ''TA'',
       Submission_Date = None, ReviewPriority = None\<rparr>]"

definition example_apps :: "cell application list" where
  "example_apps = [\<lparr>apps_Application_No = Some ''12345'', apps_Sponsor = Some ''Acme''\<rparr>]"

definition example_prods :: "(cell, val) product list" where
  "example_prods =
     [\<lparr>prods_Application_No = Some ''12345'', prods_Form = Some (Str ''TABLET;ORAL''),
       prods_Strength = Some (Str ''10MG''), prods_DrugName = Some (Str ''DrugX'')\<rparr>]"

definition example_df :: "(cell, cell) merged list" where
  "example_df =
     [\<lparr>Application_No = Some ''12345'', Submission_Type = Some ''Supplemental'',
       Submission_No = Some ''1'', Status = Some ''AP'',
       Submission_Date = Some ''1999-01-01'', ReviewPriority = Some ''STANDARD'',
       Sponsor = Some ''Acme'', Form = Some ''TABLET / ORAL'',
       Strength = Some ''10MG'', DrugName = Some ''DrugX''\<rparr>,
      \<lparr>Application_No = Some ''777'', Submission_Type = Some ''Original'',
       Submission_No = Some ''1'', Status = Some ''TA'',
       Submission_Date = None, ReviewPriority = None,
       Sponsor = None, Form = Some [],
       Strength = None, DrugName = None\<rparr>]"

text \<open>The second row of \<open>example_sub\<close>, whose key is in no other table.\<close>

definition unmatched_submission :: "(cell, cell) submission" where
  "unmatched_submission =
     \<lparr>Application_No = Some ''777'', Submission_Type = Some ''ORIG'',
      Submission_No = Some ''1'', Status = Some ''TA'',
      Submission_Date = None, ReviewPriority = None\<rparr>"

text \<open>Two product rows of one application with the same form, strength and name.\<close>

definition repeated_prods :: "(cell, val) product list" where
  "repeated_prods =
     [\<lparr>prods_Application_No = Some ''12345'', prods_Form = Some (Str ''TABLET''),
       prods_Strength = Some (Str ''10MG''), prods_DrugName = Some (Str ''DrugX'')\<rparr>,
      \<lparr>prods_Application_No = Some ''12345'', prods_Form = Some (Str ''TABLET''),
       prods_Strength = Some (Str ''10MG''), prods_DrugName = Some (Str ''DrugX'')\<rparr>]"

text \<open>A product table with two applications, one of them with two products.\<close>

definition two_key_prods :: "(cell, val) product list" where
  "two_key_prods =
     [\<lparr>prods_Application_No = Some ''777'', prods_Form = Some (Str ''CAPSULE''),
       prods_Strength = Some (Str ''5MG''), prods_DrugName = Some (Str ''DrugY'')\<rparr>,
      \<lparr>prods_Application_No = Some ''12345'', prods_Form = Some (Str ''TABLET''),
       prods_Strength = Some (Str ''10MG''), prods_DrugName = Some (Str ''DrugX'')\<rparr>,
      \<lparr>prods_Application_No = Some ''777'', prods_Form = None,
       prods_Strength = Some (Str ''10MG''), prods_DrugName = Some (Str ''DrugY'')\<rparr>]"

definition two_key_aggregated :: "(cell, string) product list" where
  "two_key_aggregated =
     [\<lparr>prods_Application_No = Some ''12345'', prods_Form = Some ''TABLET'',
       prods_Strength = Some ''10MG'', prods_DrugName = Some ''DrugX''\<rparr>,
      \<lparr>prods_Application_No = Some ''777'', prods_Form = Some ''CAPSULE'',
       prods_Strength = Some ''5MG, 10MG'', prods_DrugName = Some ''DrugY, DrugY''\<rparr>]"

text \<open>A product table in which a strength was read as a number.\<close>

definition numeric_prods :: "(cell, val) product list" where
  "numeric_prods =
     [\<lparr>prods_Application_No = Some ''12345'', prods_Form = Some (Str ''TABLET''),
       prods_Strength = Some (Num ''10''), prods_DrugName = Some (Str ''DrugX'')\<rparr>]"

text \<open>A frame as the dashboard reads it: one row without a date, one with.\<close>

definition excel_frame :: "(cell, date option) merged list" where
  "excel_frame =
     [\<lparr>Application_No = Some ''777'', Submission_Type = Some ''Original'',
       Submission_No = Some ''1'', Status = Some ''TA'',
       Submission_Date = None, ReviewPriority = None,
       Sponsor = None, Form = None, Strength = None, DrugName = None\<rparr>,
      \<lparr>Application_No = Some ''12345'', Submission_Type = Some ''Supplemental'',
       Submission_No = Some ''1'', Status = Some ''AP'',
       Submission_Date = Some (Parsed (Timestamp 1999 1 1)),
       ReviewPriority = Some ''STANDARD'',
       Sponsor = None, Form = Some ''TABLET / ORAL'',
       Strength = Some ''10MG'', DrugName = Some ''DrugX''\<rparr>]"

definition excel_loaded :: "(cell, date option) loaded list" where
  "excel_loaded =
     [\<lparr>Application_No = Some ''12345'', Submission_Type = Some ''Supplemental'',
       Submission_No = Some ''1'', Status = Some ''Approved'',
       Submission_Date = Some (Parsed (Timestamp 1999 1 1)),
       ReviewPriority = Some ''STANDARD'',
       Sponsor = Some ''Unknown'', Form = Some ''TABLET / ORAL'',
       Strength = Some ''10MG'', DrugName = Some ''DrugX'',
       Submission_Year = Some 1999\<rparr>]"

text \<open>The same frame with a date in its first row that does not parse.\<close>

definition unparsed_frame :: "(cell, date option) merged list" where
  "unparsed_frame =
     [\<lparr>Application_No = Some ''777'', Submission_Type = Some ''Original'',
       Submission_No = Some ''1'', Status = Some ''TA'',
       Submission_Date = Some (Unparsed ''pending''), ReviewPriority = None,
       Sponsor = None, Form = None, Strength = None, DrugName = None\<rparr>,
      \<lparr>Application_No = Some ''12345'', Submission_Type = Some ''Supplemental'',
       Submission_No = Some ''1'', Status = Some ''AP'',
       Submission_Date = None,
       ReviewPriority = Some ''STANDARD'',
       Sponsor = None, Form = Some ''TABLET / ORAL'',
       Strength = Some ''10MG'', DrugName = Some ''DrugX''\<rparr>]"

text \<open>Tables in which \<open>ApplNo\<close> is missing: a submission, an application, two products.\<close>

definition keyless_submission :: "(cell, cell) submission" where
  "keyless_submission =
     \<lparr>Application_No = None, Submission_Type = Some ''ORIG'',
      Submission_No = Some ''2'', Status = Some ''AP'',
      Submission_Date = Some ''2001-05-05'', ReviewPriority = None\<rparr>"

definition keyless_application :: "cell application" where
  "keyless_application = \<lparr>apps_Application_No = None, apps_Sponsor = Some ''Acme''\<rparr>"

definition keyless_prods :: "(cell, val) product list" where
  "keyless_prods =
     [\<lparr>prods_Application_No = None, prods_Form = Some (Str ''TABLET;ORAL''),
       prods_Strength = Some (Str ''10MG''), prods_DrugName = Some (Str ''DrugX'')\<rparr>,
      \<lparr>prods_Application_No = None, prods_Form = Some (Str ''CAPSULE''),
       prods_Strength = None, prods_DrugName = Some (Str ''DrugY'')\<rparr>]"

text \<open>What the merge script makes of them, before pandas 3 and from pandas 3 on.\<close>

definition keyless_df_before_3 :: "(cell, cell) merged list" where
  "keyless_df_before_3 =
     [\<lparr>Application_No = Some ''nan'', Submission_Type = Some ''Original'',
       Submission_No = Some ''2'', Status = Some ''AP'',
       Submission_Date = Some ''2001-05-05'', ReviewPriority = None,
       Sponsor = Some ''Acme'', Form = Some ''TABLET / ORAL, CAPSULE'',
       Strength = Some ''10MG'', DrugName = Some ''DrugX, DrugY''\<rparr>]"

definition keyless_df_from_3 :: "(cell, cell) merged list" where
  "keyless_df_from_3 =
     [\<lparr>Application_No = None, Submission_Type = Some ''Original'',
       Submission_No = Some ''2'', Status = Some ''AP'',
       Submission_Date = Some ''2001-05-05'', ReviewPriority = None,
       Sponsor = Some ''Acme'', Form = Some [],
       Strength = None, DrugName = None\<rparr>]"

text \<open>
  A loaded frame of six submissions of one sponsor, each of another drug, in the years
  1999 and 2001.
\<close>

definition demo_row :: "string \<Rightarrow> string \<Rightarrow> int \<Rightarrow> (cell, date option) loaded" where
  "demo_row sponsor drug y =
     \<lparr>Application_No = Some ''12345'', Submission_Type = Some ''Original'',
      Submission_No = Some ''1'', Status = Some ''Approved'',
      Submission_Date = Some (Parsed (Timestamp y 1 1)), ReviewPriority = None,
      Sponsor = Some sponsor, Form = None, Strength = None,
      DrugName = Some drug, Submission_Year = Some y\<rparr>"

definition demo_frame :: "(cell, date option) loaded list" where
  "demo_frame =
     [demo_row ''Acme'' ''D1'' 1999, demo_row ''Acme'' ''D2'' 1999,
      demo_row ''Acme'' ''D3'' 2001, demo_row ''Acme'' ''D4'' 2001,
      demo_row ''Acme'' ''D5'' 1999, demo_row ''Acme'' ''D6'' 2001]"

definition demo_selection :: selection where
  "demo_selection =
     \<lparr>search = [], years = (1999, 2001), selected_status = [Some ''Approved''],
      selected_sponsors = [Some ''Acme''],
      selected_drugs = [Some ''D1'', Some ''D2'', Some ''D3'', Some ''D4'', Some ''D5'']\<rparr>"

text \<open>Three source files that load, and runs around them.\<close>

definition Submissions_frame :: frame where
  "Submissions_frame =
     \<lparr>columns = [''ApplNo'', ''SubmissionClassCodeID'', ''SubmissionType'', ''SubmissionNo'',
                 ''SubmissionStatus'', ''SubmissionStatusDate'', ''ReviewPriority''],
      rows = [[Some (Num ''12345''), Some (Num ''7''), Some (Str ''SUPPL''), Some (Num ''1''),
               Some (Str ''AP''), Some (Str ''1999-01-01''), Some (Str ''STANDARD'')]]\<rparr>"

definition Applications_frame :: frame where
  "Applications_frame =
     \<lparr>columns = [''ApplNo'', ''ApplType'', ''SponsorName''],
      rows = [[Some (Num ''12345''), Some (Str ''NDA''), Some (Str ''Acme'')]]\<rparr>"

definition Products_frame :: frame where
  "Products_frame =
     \<lparr>columns = [''ApplNo'', ''ProductNo'', ''Form'', ''Strength'', ''DrugName''],
      rows = [[Some (Num ''12345''), Some (Num ''1''), Some (Str ''TABLET;ORAL''),
               Some (Str ''10MG''), Some (Str ''DrugX'')]]\<rparr>"

definition good_env :: env where
  "good_env =
     \<lparr>openpyxl_installed = True, pandas_version = Before_3,
      Submissions_txt = Inr Submissions_frame,
      Applications_txt = Inr Applications_frame, Products_txt = Inr Products_frame,
      output_file = None, to_excel_fault = None, print_fault = None\<rparr>"



definition missing_column_env :: env where
  "missing_column_env =
     good_env\<lparr>Applications_txt :=
       Inr \<lparr>columns = [''ApplNo''], rows = [[Some (Num ''12345'')]]\<rparr>\<rparr>"



section \<open>Properties of the operations\<close>

lemma merge_left_unique:
  assumes "distinct (map kr rs)"
  shows "merge_left kl kr mk ls rs =
           map (\<lambda>l. mk l (find (\<lambda>r. kr r = kl l) rs)) ls"
proof -
  have one: "(case filter (\<lambda>r. kr r = k) rs of [] \<Rightarrow> [mk l None]
               | ms \<Rightarrow> map (\<lambda>r. mk l (Some r)) ms) = [mk l (find (\<lambda>r. kr r = k) rs)]"
    for k l
    using assms
  proof (induction rs)
    case Nil
    show ?case by simp
  next
    case (Cons r rs)
    have "filter (\<lambda>r. kr r = k) rs = []" if "kr r = k"
    proof -
      from that Cons.prems have "k \<notin> set (map kr rs)" by auto
      then show ?thesis by (auto simp: filter_empty_conv)
    qed
    with Cons show ?case by auto
  qed
  show ?thesis
    unfolding merge_left_def by (induction ls) (simp_all add: one)
qed

lemma set_merge_left:
  "set (merge_left kl kr mk ls rs) = (\<Union>l\<in>set ls. mk l ` matches kr rs (kl l))"
proof -
  have one: "set (case filter (\<lambda>r. kr r = k) rs of [] \<Rightarrow> [mk l None]
               | ms \<Rightarrow> map (\<lambda>r. mk l (Some r)) ms) = mk l ` matches kr rs k" for k l
  proof (cases "filter (\<lambda>r. kr r = k) rs")
    case Nil
    then have "k \<notin> kr ` set rs" by (auto simp: filter_empty_conv)
    with Nil show ?thesis by (simp add: matches_def)
  next
    case (Cons m ms)
    then have "m \<in> set (filter (\<lambda>r. kr r = k) rs)" by simp
    then have k: "k \<in> kr ` set rs" by auto
    have "set (case filter (\<lambda>r. kr r = k) rs of [] \<Rightarrow> [mk l None]
               | ms \<Rightarrow> map (\<lambda>r. mk l (Some r)) ms) =
          set (map (\<lambda>r. mk l (Some r)) (filter (\<lambda>r. kr r = k) rs))"
      by (simp add: Cons)
    also have "\<dots> = (\<lambda>r. mk l (Some r)) ` {r \<in> set rs. kr r = k}"
      by simp
    also have "\<dots> = mk l ` matches kr rs k"
      using k by (simp add: matches_def image_image)
    finally show ?thesis .
  qed
  show ?thesis
    unfolding merge_left_def by (simp add: one)
qed

lemma matches_nonempty: "matches kr rs k \<noteq> {}"
  by (auto simp: matches_def)

lemma matches_no_key: "k \<notin> kr ` set rs \<Longrightarrow> matches kr rs k = {None}"
  by (simp add: matches_def)

lemma filter_eq_distinct:
  "distinct xs \<Longrightarrow> x \<in> set xs \<Longrightarrow> filter (\<lambda>y. y = x) xs = [x]"
proof (induction xs)
  case Nil
  then show ?case by simp
next
  case (Cons a xs)
  then show ?case by (auto simp: filter_empty_conv)
qed


lemma set_dropna: "set (dropna xs) = {x. Some x \<in> set xs}"
  by (induction xs rule: dropna.induct) auto

lemma sequence_map_Inr:
  "(\<And>k. k \<in> set ks \<Longrightarrow> g k = Inr (h k)) \<Longrightarrow> sequence (map g ks) = Inr (map h ks)"
  by (induction ks) simp_all

lemma sequence_Inr_all:
  "sequence rs = Inr xs \<Longrightarrow> r \<in> set rs \<Longrightarrow> \<exists>x. r = Inr x"
  by (induction rs arbitrary: xs rule: sequence.induct) (auto split: sum.splits)

lemma first_number_dropna: "first_number (dropna cs) = None \<longleftrightarrow> (\<forall>c\<in>set cs. is_text c)"
proof (induction cs)
  case Nil
  show ?case by simp
next
  case (Cons c cs)
  show ?case
  proof (cases c)
    case None
    with Cons show ?thesis by simp
  next
    case (Some v)
    with Cons show ?thesis by (cases v) simp_all
  qed
qed

lemma agg_join_text:
  "(\<forall>c\<in>set x. is_text c) \<Longrightarrow> agg_join x = Inr (join '', '' (strings (dropna x)))"
  using first_number_dropna [of x] by (simp add: agg_join_def py_join_def)

lemma agg_join_Inr: "agg_join x = Inr s \<Longrightarrow> (\<forall>c\<in>set x. is_text c)"
  using first_number_dropna [of x]
  by (simp add: agg_join_def py_join_def split: option.splits)

section \<open>Properties of the aggregation\<close>

lemma set_group_keys: "set (group_keys prods) = {k. Some k \<in> prods_Application_No ` set prods}"
  by (auto simp: group_keys_def set_dropna)

lemma distinct_group_keys [simp]: "distinct (group_keys prods)"
  by (simp add: group_keys_def)

lemma sorted_group_keys [simp]: "sorted (group_keys prods)"
  by (simp add: group_keys_def)

lemma set_group_of:
  "set (group_of prods k) = {p \<in> set prods. prods_Application_No p = Some k}"
  by (simp add: group_of_def)

lemma agg_column_text:
  assumes "\<And>p. p \<in> set prods \<Longrightarrow> prods_Application_No p \<noteq> None \<Longrightarrow> is_text (f p)"
  shows "agg_column f prods = Inr (map (joined f prods) (group_keys prods))"
  unfolding agg_column_def
proof (rule sequence_map_Inr)
  fix k
  have "\<forall>c\<in>set (map f (group_of prods k)). is_text c"
    using assms by (auto simp: set_group_of)
  then show "agg_join (map f (group_of prods k)) = Inr (joined f prods k)"
    by (simp add: agg_join_text joined_def)
qed

lemma agg_column_Inr:
  assumes "agg_column f prods = Inr xs"
    and "p \<in> set prods" and "prods_Application_No p \<noteq> None"
  shows "is_text (f p)"
proof -
  from assms(3) obtain k where k: "prods_Application_No p = Some k" by auto
  with assms(2) have "k \<in> set (group_keys prods)"
    by (force simp: set_group_keys)
  then have "agg_join (map f (group_of prods k)) \<in>
      set (map (\<lambda>k. agg_join (map f (group_of prods k))) (group_keys prods))"
    by simp
  with assms(1) obtain s where "agg_join (map f (group_of prods k)) = Inr s"
    unfolding agg_column_def by (blast dest: sequence_Inr_all)
  then have "\<forall>c\<in>set (map f (group_of prods k)). is_text c" by (rule agg_join_Inr)
  moreover have "p \<in> set (group_of prods k)" using assms(2) k by (simp add: set_group_of)
  ultimately show ?thesis by simp
qed

lemma zip_maps:
  "zip ks (zip (map a ks) (zip (map b ks) (map c ks))) = map (\<lambda>k. (k, a k, b k, c k)) ks"
  by (induction ks) simp_all

lemma groupby_agg_text:
  assumes "\<And>p. p \<in> set prods \<Longrightarrow> prods_Application_No p \<noteq> None \<Longrightarrow> text_fields p"
  shows "groupby_agg prods = Inr (map (group_row prods) (group_keys prods))"
proof -
  have f: "agg_column prods_Form prods = Inr (map (joined prods_Form prods) (group_keys prods))"
    and s: "agg_column prods_Strength prods =
              Inr (map (joined prods_Strength prods) (group_keys prods))"
    and d: "agg_column prods_DrugName prods =
              Inr (map (joined prods_DrugName prods) (group_keys prods))"
    by (rule agg_column_text, use assms in \<open>simp add: text_fields_def\<close>)+
  show ?thesis
    by (simp add: groupby_agg_def f s d zip_maps group_row_def comp_def)
qed

lemma groupby_agg_Inr_text:
  assumes "groupby_agg prods = Inr t"
    and "p \<in> set prods" and "prods_Application_No p \<noteq> None"
  shows "text_fields p"
proof -
  from assms(1) obtain fs ss ds where
    "agg_column prods_Form prods = Inr fs"
    "agg_column prods_Strength prods = Inr ss"
    "agg_column prods_DrugName prods = Inr ds"
    by (auto simp: groupby_agg_def split: sum.splits)
  then show ?thesis
    using assms(2,3) by (simp add: text_fields_def agg_column_Inr)
qed

lemma groupby_agg_Inr:
  assumes "groupby_agg prods = Inr t"
  shows "t = map (group_row prods) (group_keys prods)"
proof -
  have "groupby_agg prods = Inr (map (group_row prods) (group_keys prods))"
    using assms by (intro groupby_agg_text) (rule groupby_agg_Inr_text)
  with assms show ?thesis by simp
qed

lemma group_row_key [simp]: "prods_Application_No (group_row prods k) = Some k"
  by (simp add: group_row_def)

lemma groupby_agg_keys:
  assumes "groupby_agg prods = Inr t"
  shows "map prods_Application_No t = map Some (group_keys prods)"
  unfolding groupby_agg_Inr [OF assms] by (simp add: comp_def)

lemma groupby_agg_distinct:
  assumes "groupby_agg prods = Inr t"
  shows "distinct (map prods_Application_No t)"
  unfolding groupby_agg_keys [OF assms] by (simp add: distinct_map)

section \<open>The rows of the merge\<close>

lemma Merger_Inr:
  assumes "Merger pd sub apps prods = Inr df"
  obtains t where "groupby_agg (map (prods_astype pd) prods) = Inr t"
    and "df = merge_and_clean (map (sub_astype pd) sub) (map (apps_astype pd) apps) t"
  using assms by (auto simp: Merger_def split: sum.splits)

lemma Merger_text:
  assumes "\<And>p. p \<in> set prods \<Longrightarrow> astype_str pd (prods_Application_No p) \<noteq> None
             \<Longrightarrow> text_fields p"
  shows "\<exists>df. Merger pd sub apps prods = Inr df"
proof -
  have "groupby_agg (map (prods_astype pd) prods) =
          Inr (map (group_row (map (prods_astype pd) prods))
                 (group_keys (map (prods_astype pd) prods)))"
    using assms by (intro groupby_agg_text) (auto simp: prods_astype_def text_fields_def)
  then show ?thesis by (simp add: Merger_def)
qed

lemma output_row_simps [simp]:
  "Application_No (output_row pd s a p) = astype_str pd (Application_No s)"
  "Submission_Type (output_row pd s a p) = replace_dict submission_type_map (Submission_Type s)"
  "Submission_No (output_row pd s a p) = Submission_No s"
  "Status (output_row pd s a p) = Status s"
  "Submission_Date (output_row pd s a p) = Submission_Date s"
  "ReviewPriority (output_row pd s a p) = ReviewPriority s"
  "Sponsor (output_row pd s a p) = (case a of None \<Rightarrow> None | Some r \<Rightarrow> apps_Sponsor r)"
  "Form (output_row pd s a p) = clean_form_cell (case p of None \<Rightarrow> None | Some r \<Rightarrow> prods_Form r)"
  "Strength (output_row pd s a p) = (case p of None \<Rightarrow> None | Some r \<Rightarrow> prods_Strength r)"
  "DrugName (output_row pd s a p) = (case p of None \<Rightarrow> None | Some r \<Rightarrow> prods_DrugName r)"
  by (simp_all add: output_row_def clean_form_def clean_submission_type_def add_products_def
      add_sponsor_def sub_astype_def)

lemma add_sponsor_key [simp]: "Application_No (add_sponsor s a) = Application_No s"
  by (simp add: add_sponsor_def)

lemma sub_astype_key [simp]: "Application_No (sub_astype pd s) = astype_str pd (Application_No s)"
  by (simp add: sub_astype_def)

lemma set_merge_and_clean:
  "set (merge_and_clean (map (sub_astype pd) sub) apps t) =
     (\<Union>s\<in>set sub.
        \<Union>a\<in>matches apps_Application_No apps (astype_str pd (Application_No s)).
          \<Union>p\<in>matches prods_Application_No t (astype_str pd (Application_No s)).
            {output_row pd s a p})"
  unfolding merge_and_clean_def Let_def merge_apps_def merge_prods_def
  by (auto simp: set_merge_left output_row_def)

lemma Merger_row_origin:
  assumes "Merger pd sub apps prods = Inr df" and "r \<in> set df"
  obtains s a p t where "s \<in> set sub"
    and "groupby_agg (map (prods_astype pd) prods) = Inr t"
    and "a \<in> matches apps_Application_No (map (apps_astype pd) apps)
               (astype_str pd (Application_No s))"
    and "p \<in> matches prods_Application_No t (astype_str pd (Application_No s))"
    and "r = output_row pd s a p"
proof -
  from assms(1) obtain t where t: "groupby_agg (map (prods_astype pd) prods) = Inr t"
    and df: "df = merge_and_clean (map (sub_astype pd) sub) (map (apps_astype pd) apps) t"
    by (rule Merger_Inr)
  from assms(2) show ?thesis
    unfolding df set_merge_and_clean using that t by blast
qed

lemma Merger_row_exists:
  assumes "Merger pd sub apps prods = Inr df"
    and "groupby_agg (map (prods_astype pd) prods) = Inr t"
    and "s \<in> set sub"
    and "a \<in> matches apps_Application_No (map (apps_astype pd) apps)
               (astype_str pd (Application_No s))"
    and "p \<in> matches prods_Application_No t (astype_str pd (Application_No s))"
  shows "output_row pd s a p \<in> set df"
proof -
  from assms(1,2) have
    df: "df = merge_and_clean (map (sub_astype pd) sub) (map (apps_astype pd) apps) t"
    by (auto elim: Merger_Inr)
  show ?thesis
    unfolding df set_merge_and_clean using assms(3-5) by blast
qed

lemma apps_keys_astype:
  "apps_Application_No ` set (map (apps_astype pd) apps) =
     set (map (astype_str pd \<circ> apps_Application_No) apps)"
  by (auto simp: apps_astype_def image_iff)

lemma prods_keys_astype:
  "prods_Application_No ` set (map (prods_astype pd) prods) =
     set (map (astype_str pd \<circ> prods_Application_No) prods)"
  by (auto simp: prods_astype_def image_iff)

lemma aggregated_keys:
  assumes "groupby_agg (map (prods_astype pd) prods) = Inr t"
  shows "prods_Application_No ` set t =
           {k. k \<noteq> None \<and> k \<in> set (map (astype_str pd \<circ> prods_Application_No) prods)}"
proof -
  have "prods_Application_No ` set t = set (map prods_Application_No t)" by simp
  also have "\<dots> = Some ` set (group_keys (map (prods_astype pd) prods))"
    unfolding groupby_agg_keys [OF assms] by simp
  also have "\<dots> = {k. k \<noteq> None \<and> k \<in> set (map (astype_str pd \<circ> prods_Application_No) prods)}"
  proof -
    have "Some ` {k. Some k \<in> A} = {k. k \<noteq> None \<and> k \<in> A}" for A :: "string option set"
      by (auto simp: image_iff)
    then show ?thesis
      unfolding set_group_keys prods_keys_astype by blast
  qed
  finally show ?thesis .
qed

lemma matches_aggregated_none:
  assumes "groupby_agg (map (prods_astype pd) prods) = Inr t"
    and "k = None \<or> k \<notin> set (map (astype_str pd \<circ> prods_Application_No) prods)"
  shows "matches prods_Application_No t k = {None}"
  using assms(2) by (intro matches_no_key) (auto simp: aggregated_keys [OF assms(1)])

lemma filter_group_row:
  assumes "k \<in> set (group_keys prods)"
  shows "filter (\<lambda>r. prods_Application_No r = Some k) (map (group_row prods) (group_keys prods)) =
           [group_row prods k]"
proof -
  have "filter (\<lambda>y. y = k) (group_keys prods) = [k]"
    using assms by (intro filter_eq_distinct) simp_all
  then show ?thesis by (simp add: filter_map comp_def)
qed

lemma matches_aggregated:
  assumes "groupby_agg (map (prods_astype pd) prods) = Inr t"
    and "Some k \<in> set (map (astype_str pd \<circ> prods_Application_No) prods)"
  shows "matches prods_Application_No t (Some k) =
           {Some (group_row (map (prods_astype pd) prods) k)}"
proof -
  let ?P = "map (prods_astype pd) prods"
  have t: "t = map (group_row ?P) (group_keys ?P)"
    using assms(1) by (rule groupby_agg_Inr)
  have k: "k \<in> set (group_keys ?P)"
    using assms(2) unfolding set_group_keys prods_keys_astype by simp
  have in_keys: "Some k \<in> prods_Application_No ` set t"
    using assms(2) by (simp add: aggregated_keys [OF assms(1)])
  have "{r \<in> set t. prods_Application_No r = Some k} =
          set (filter (\<lambda>r. prods_Application_No r = Some k) t)"
    by auto
  also have "\<dots> = {group_row ?P k}"
    unfolding t filter_group_row [OF k] by simp
  finally show ?thesis
    using in_keys by (simp add: matches_def)
qed

lemma group_of_astype:
  "map f (group_of (map (prods_astype pd) prods) k) =
     map (f \<circ> prods_astype pd) (filter (\<lambda>p. astype_str pd (prods_Application_No p) = Some k) prods)"
  by (induction prods) (simp_all add: group_of_def prods_astype_def)

lemma Merger_row_source:
  assumes "Merger pd sub apps prods = Inr df" and "r \<in> set df"
  shows "\<exists>s\<in>set sub.
           Application_No r = astype_str pd (Application_No s) \<and>
           Submission_No r = Submission_No s \<and>
           Submission_Date r = Submission_Date s \<and>
           ReviewPriority r = ReviewPriority s \<and>
           Status r = Status s \<and>
           Submission_Type r = replace_dict submission_type_map (Submission_Type s)"
proof -
  from assms obtain s a p where "s \<in> set sub" and "r = output_row pd s a p"
    by (rule Merger_row_origin)
  then show ?thesis by (intro bexI [of _ s]) simp_all
qed

section \<open>Row count of the merge\<close>

lemma Merger_example: "Merger pd example_sub example_apps example_prods = Inr example_df"
  by (simp add: Merger_def merge_and_clean_def example_sub_def example_apps_def
      example_prods_def example_df_def Let_def
      sub_astype_def apps_astype_def prods_astype_def astype_str_def groupby_agg_def
      agg_column_def group_keys_def group_of_def agg_join_def py_join_def
      merge_apps_def merge_prods_def merge_left_def add_sponsor_def
      add_products_def clean_submission_type_def clean_form_def clean_form_cell_def
      fillna_def series_str_replace_def replace_dict_def submission_type_map_def)

text \<open>
  C1. When \<open>Application_No\<close> is unique in \<open>apps\<close> (as the script compares it, after
  \<open>astype(str)\<close>), the frame that a run of the script writes has exactly one row per
  row of \<open>sub\<close>, in the same order: the row count is that of \<open>sub\<close>, and the columns
  taken from \<open>sub\<close> that the script does not rewrite are those of \<open>sub\<close>, row by row.
  No submission row is dropped or duplicated by the two left joins.
\<close>

theorem Merger_one_row_per_submission:
  assumes "distinct (map (astype_str pd \<circ> apps_Application_No) apps)"
    and "Merger pd sub apps prods = Inr df"
  shows "length df = length sub \<and>
         map (\<lambda>r. (Application_No r, Submission_No r, Status r, Submission_Date r,
                   ReviewPriority r)) df =
         map (\<lambda>s. (astype_str pd (Application_No s), Submission_No s, Status s,
                   Submission_Date s, ReviewPriority s)) sub"
proof -
  from assms(2) obtain t where t: "groupby_agg (map (prods_astype pd) prods) = Inr t"
    and df: "df = merge_and_clean (map (sub_astype pd) sub) (map (apps_astype pd) apps) t"
    by (rule Merger_Inr)
  have da: "distinct (map apps_Application_No (map (apps_astype pd) apps))"
    using assms(1) by (simp add: apps_astype_def comp_def)
  have dt: "distinct (map prods_Application_No t)"
    using t by (rule groupby_agg_distinct)
  show ?thesis
    unfolding df merge_and_clean_def Let_def merge_apps_def merge_prods_def
    by (simp add: merge_left_unique [OF da] merge_left_unique [OF dt] clean_form_def
        clean_submission_type_def add_products_def add_sponsor_def sub_astype_def comp_def)
qed

theorem Merger_one_row_per_submission_witness:
  "distinct (map (astype_str Before_3 \<circ> apps_Application_No) example_apps) \<and>
   Merger Before_3 example_sub example_apps example_prods = Inr example_df \<and>
   length example_df = length example_sub"
proof -
  have h: "distinct (map (astype_str Before_3 \<circ> apps_Application_No) example_apps)"
    by (simp add: example_apps_def)
  from Merger_one_row_per_submission [OF h Merger_example] h Merger_example
  show ?thesis by simp
qed

section \<open>The aggregation of products\<close>

lemma strings_text: "first_number xs = None \<Longrightarrow> map Str (strings xs) = xs"
  by (induction xs rule: first_number.induct) simp_all

lemma group_values_text:
  assumes "\<And>p. p \<in> set prods \<Longrightarrow> prods_Application_No p \<noteq> None \<Longrightarrow> is_text (f p)"
  shows "dropna (map f (group_of prods k)) =
           map Str (strings (dropna (map f (group_of prods k))))"
proof -
  have "\<forall>c\<in>set (map f (group_of prods k)). is_text c"
    using assms by (auto simp: set_group_of)
  then have "first_number (dropna (map f (group_of prods k))) = None"
    by (simp only: first_number_dropna)
  then show ?thesis by (simp only: strings_text)
qed

lemma py_join_Inl: "py_join sep xs = Inl e \<Longrightarrow> \<exists>m. e = TypeError m"
  by (auto simp: py_join_def split: option.splits)

lemma sequence_Inl: "sequence rs = Inl e \<Longrightarrow> Inl e \<in> set rs"
  by (induction rs rule: sequence.induct) (auto split: sum.splits)

lemma agg_column_Inl: "agg_column f prods = Inl e \<Longrightarrow> \<exists>m. e = TypeError m"
  by (auto simp: agg_column_def agg_join_def dest!: sequence_Inl py_join_Inl [OF sym])

lemma groupby_agg_Inl: "groupby_agg prods = Inl e \<Longrightarrow> \<exists>m. e = TypeError m"
  by (auto simp: groupby_agg_def split: sum.splits dest: agg_column_Inl)

text \<open>
  C2, as amended. The aggregation raises \<open>TypeError\<close> when a \<open>Form\<close>, \<open>Strength\<close> or
  \<open>DrugName\<close> of a row with a key is a number. When none is, it returns a table that
  has, for every key of the products table, exactly one row, and each of that row's
  fields \<open>Form\<close>, \<open>Strength\<close>, \<open>DrugName\<close> is the concatenation, joined with
  \<open>", "\<close>, of all the non-missing values of the key's rows in row order. The values are
  not made distinct: a value that occurs several times for a key occurs as often in the
  concatenation.
\<close>

theorem groupby_agg_concatenates_present_values:
  assumes "Some k \<in> set (map prods_Application_No prods)"
  shows "((\<forall>p\<in>set prods. prods_Application_No p \<noteq> None \<longrightarrow> text_fields p) \<longrightarrow>
          (\<exists>t forms strengths names.
             groupby_agg prods = Inr t \<and>
             dropna (map prods_Form (filter (\<lambda>p. prods_Application_No p = Some k) prods)) =
               map Str forms \<and>
             dropna (map prods_Strength (filter (\<lambda>p. prods_Application_No p = Some k) prods)) =
               map Str strengths \<and>
             dropna (map prods_DrugName (filter (\<lambda>p. prods_Application_No p = Some k) prods)) =
               map Str names \<and>
             filter (\<lambda>r. prods_Application_No r = Some k) t =
               [\<lparr>prods_Application_No = Some k,
                 prods_Form = Some (join '', '' forms),
                 prods_Strength = Some (join '', '' strengths),
                 prods_DrugName = Some (join '', '' names)\<rparr>])) \<and>
         (\<not> (\<forall>p\<in>set prods. prods_Application_No p \<noteq> None \<longrightarrow> text_fields p) \<longrightarrow>
          (\<exists>m. groupby_agg prods = Inl (TypeError m)))"
proof (intro conjI impI)
  assume tx: "\<forall>p\<in>set prods. prods_Application_No p \<noteq> None \<longrightarrow> text_fields p"
  then have t: "groupby_agg prods = Inr (map (group_row prods) (group_keys prods))"
    by (intro groupby_agg_text) blast
  have k: "k \<in> set (group_keys prods)"
    using assms by (simp add: set_group_keys)
  have f: "dropna (map prods_Form (group_of prods k)) =
             map Str (strings (dropna (map prods_Form (group_of prods k))))"
    and s: "dropna (map prods_Strength (group_of prods k)) =
             map Str (strings (dropna (map prods_Strength (group_of prods k))))"
    and d: "dropna (map prods_DrugName (group_of prods k)) =
             map Str (strings (dropna (map prods_DrugName (group_of prods k))))"
    by (rule group_values_text, use tx in \<open>simp add: text_fields_def\<close>)+
  show "\<exists>t forms strengths names.
             groupby_agg prods = Inr t \<and>
             dropna (map prods_Form (filter (\<lambda>p. prods_Application_No p = Some k) prods)) =
               map Str forms \<and>
             dropna (map prods_Strength (filter (\<lambda>p. prods_Application_No p = Some k) prods)) =
               map Str strengths \<and>
             dropna (map prods_DrugName (filter (\<lambda>p. prods_Application_No p = Some k) prods)) =
               map Str names \<and>
             filter (\<lambda>r. prods_Application_No r = Some k) t =
               [\<lparr>prods_Application_No = Some k,
                 prods_Form = Some (join '', '' forms),
                 prods_Strength = Some (join '', '' strengths),
                 prods_DrugName = Some (join '', '' names)\<rparr>]"
    using t f s d filter_group_row [OF k]
    unfolding group_of_def group_row_def joined_def by blast
next
  assume "\<not> (\<forall>p\<in>set prods. prods_Application_No p \<noteq> None \<longrightarrow> text_fields p)"
  then have "\<not> (\<exists>t. groupby_agg prods = Inr t)"
    using groupby_agg_Inr_text [of prods] by blast
  then obtain e where "groupby_agg prods = Inl e"
    by (cases "groupby_agg prods") auto
  then show "\<exists>m. groupby_agg prods = Inl (TypeError m)"
    using groupby_agg_Inl by blast
qed

lemma groupby_agg_two_key: "groupby_agg two_key_prods = Inr two_key_aggregated"
  by (simp add: groupby_agg_def agg_column_def group_keys_def group_of_def agg_join_def
      py_join_def two_key_prods_def two_key_aggregated_def)

theorem groupby_agg_concatenates_present_values_witness:
  "Some ''777'' \<in> set (map prods_Application_No two_key_prods) \<and>
   list_all text_fields two_key_prods \<and>
   groupby_agg two_key_prods = Inr two_key_aggregated \<and>
   filter (\<lambda>r. prods_Application_No r = Some ''777'') two_key_aggregated =
     [\<lparr>prods_Application_No = Some ''777'', prods_Form = Some ''CAPSULE'',
       prods_Strength = Some ''5MG, 10MG'', prods_DrugName = Some ''DrugY, DrugY''\<rparr>] \<and>
   Some ''12345'' \<in> set (map prods_Application_No numeric_prods) \<and>
   \<not> list_all text_fields numeric_prods \<and>
   groupby_agg numeric_prods = Inl (TypeError ''10'')"
proof -
  have h: "Some ''777'' \<in> set (map prods_Application_No two_key_prods)"
    by (simp add: two_key_prods_def)
  have a: "list_all text_fields two_key_prods"
    by (simp add: two_key_prods_def text_fields_def)
  then have a': "\<forall>p\<in>set two_key_prods. prods_Application_No p \<noteq> None \<longrightarrow> text_fields p"
    by (simp add: list_all_iff)
  have v: "filter (\<lambda>r. prods_Application_No r = Some ''777'') two_key_aggregated =
     [\<lparr>prods_Application_No = Some ''777'', prods_Form = Some ''CAPSULE'',
       prods_Strength = Some ''5MG, 10MG'', prods_DrugName = Some ''DrugY, DrugY''\<rparr>]"
    by (simp add: two_key_aggregated_def)
  have h2: "Some ''12345'' \<in> set (map prods_Application_No numeric_prods)"
    by (simp add: numeric_prods_def)
  have n: "\<not> list_all text_fields numeric_prods"
    by (simp add: numeric_prods_def text_fields_def)
  then have n': "\<not> (\<forall>p\<in>set numeric_prods. prods_Application_No p \<noteq> None \<longrightarrow> text_fields p)"
    by (simp add: list_all_iff numeric_prods_def)
  from groupby_agg_concatenates_present_values [OF h] a'
  obtain t where "groupby_agg two_key_prods = Inr t" by blast
  then have g: "groupby_agg two_key_prods = Inr two_key_aggregated"
    by (simp add: groupby_agg_two_key)
  from groupby_agg_concatenates_present_values [OF h2] n'
  obtain m where "groupby_agg numeric_prods = Inl (TypeError m)" by blast
  then have e: "groupby_agg numeric_prods = Inl (TypeError ''10'')"
    by (simp add: groupby_agg_def agg_column_def group_keys_def group_of_def agg_join_def
        py_join_def numeric_prods_def)
  from h a g v h2 n e show ?thesis by blast
qed

text \<open>
  The claim as written fails where a value repeats: two product rows with the same
  form give the form twice, where the distinct values would give it once.
\<close>

theorem groupby_agg_repeats_values:
  "groupby_agg repeated_prods =
     Inr [\<lparr>prods_Application_No = Some ''12345'', prods_Form = Some ''TABLET, TABLET'',
           prods_Strength = Some ''10MG, 10MG'', prods_DrugName = Some ''DrugX, DrugX''\<rparr>] \<and>
   spec_agg_join (map prods_Form repeated_prods) = ''TABLET'' \<and>
   spec_agg_join (map prods_Form repeated_prods) \<noteq> ''TABLET, TABLET''"
  by (simp add: groupby_agg_def agg_column_def group_keys_def group_of_def agg_join_def
      py_join_def repeated_prods_def spec_agg_join_def unique_def)

lemma dropna_map_Some [simp]: "dropna (map Some xs) = xs"
  by (induction xs) simp_all




section \<open>Submissions without products\<close>

lemma clean_form_cell_None [simp]: "clean_form_cell None = Some []"
  by (simp add: clean_form_cell_def fillna_def series_str_replace_def)

text \<open>
  C4, as amended. A submission row whose \<open>Application_No\<close> has no row in the products
  table is still in the output, and every output row of that key has the empty string
  as \<open>Form\<close> and a missing \<open>Strength\<close> and \<open>DrugName\<close>; when the key has no row in
  the applications table either, \<open>Sponsor\<close> is missing too. Only \<open>Form\<close> is filled
  with the empty string.
\<close>

theorem Merger_unmatched_products:
  assumes "s \<in> set sub"
    and "astype_str pd (Application_No s) \<notin>
           set (map (astype_str pd \<circ> prods_Application_No) prods)"
    and "Merger pd sub apps prods = Inr df"
  shows "(\<exists>r\<in>set df.
            Application_No r = astype_str pd (Application_No s) \<and>
            Submission_No r = Submission_No s \<and> Status r = Status s \<and>
            Submission_Date r = Submission_Date s \<and> ReviewPriority r = ReviewPriority s) \<and>
         (\<forall>r\<in>set df.
            Application_No r = astype_str pd (Application_No s) \<longrightarrow>
              Form r = Some [] \<and> Strength r = None \<and> DrugName r = None \<and>
              (astype_str pd (Application_No s) \<notin>
                 set (map (astype_str pd \<circ> apps_Application_No) apps)
                 \<longrightarrow> Sponsor r = None))"
proof (rule conjI)
  let ?k = "astype_str pd (Application_No s)"
  from assms(3) obtain t where t: "groupby_agg (map (prods_astype pd) prods) = Inr t"
    by (rule Merger_Inr)
  obtain a where a: "a \<in> matches apps_Application_No (map (apps_astype pd) apps) ?k"
    using matches_nonempty [of apps_Application_No "map (apps_astype pd) apps" ?k] by blast
  obtain p where p: "p \<in> matches prods_Application_No t ?k"
    using matches_nonempty [of prods_Application_No t ?k] by blast
  have "output_row pd s a p \<in> set df"
    using assms(3) t assms(1) a p by (rule Merger_row_exists)
  then show "\<exists>r\<in>set df.
            Application_No r = astype_str pd (Application_No s) \<and>
            Submission_No r = Submission_No s \<and> Status r = Status s \<and>
            Submission_Date r = Submission_Date s \<and> ReviewPriority r = ReviewPriority s"
    by (intro bexI [of _ "output_row pd s a p"]) simp_all
next
  have fields: "Form r = Some [] \<and> Strength r = None \<and> DrugName r = None \<and>
      (astype_str pd (Application_No s) \<notin>
         set (map (astype_str pd \<circ> apps_Application_No) apps)
         \<longrightarrow> Sponsor r = None)"
    if r: "r \<in> set df"
      and k: "Application_No r = astype_str pd (Application_No s)" for r
  proof -
    from assms(3) r obtain s' a p t where s': "s' \<in> set sub"
      and t: "groupby_agg (map (prods_astype pd) prods) = Inr t"
      and a: "a \<in> matches apps_Application_No (map (apps_astype pd) apps)
                   (astype_str pd (Application_No s'))"
      and p: "p \<in> matches prods_Application_No t (astype_str pd (Application_No s'))"
      and row: "r = output_row pd s' a p"
      by (rule Merger_row_origin)
    from k row have same:
      "astype_str pd (Application_No s') = astype_str pd (Application_No s)"
      by simp
    have "matches prods_Application_No t (astype_str pd (Application_No s)) = {None}"
      using assms(2) by (intro matches_aggregated_none [OF t] disjI2)
    with p same have pn: "p = None" by simp
    have f: "Form r = Some []" "Strength r = None" "DrugName r = None"
      by (simp_all add: row pn)
    have sp: "Sponsor r = None"
      if "astype_str pd (Application_No s) \<notin>
            set (map (astype_str pd \<circ> apps_Application_No) apps)"
    proof -
      have "astype_str pd (Application_No s) \<notin>
            apps_Application_No ` set (map (apps_astype pd) apps)"
        unfolding apps_keys_astype using that .
      with a same have "a = None" by (simp add: matches_no_key)
      then show ?thesis by (simp add: row)
    qed
    from f sp show ?thesis by blast
  qed
  then show "\<forall>r\<in>set df.
            Application_No r = astype_str pd (Application_No s) \<longrightarrow>
              Form r = Some [] \<and> Strength r = None \<and> DrugName r = None \<and>
              (astype_str pd (Application_No s) \<notin>
                 set (map (astype_str pd \<circ> apps_Application_No) apps)
                 \<longrightarrow> Sponsor r = None)"
    by blast
qed

theorem Merger_unmatched_products_witness:
  "unmatched_submission \<in> set example_sub \<and>
   astype_str Before_3 (Application_No unmatched_submission) \<notin>
     set (map (astype_str Before_3 \<circ> prods_Application_No) example_prods) \<and>
   Some ''777'' \<notin> set (map (astype_str Before_3 \<circ> apps_Application_No) example_apps) \<and>
   Merger Before_3 example_sub example_apps example_prods = Inr example_df \<and>
   example_df ! 1 \<in> set example_df \<and>
   Application_No (example_df ! 1) = Some ''777'' \<and>
   Form (example_df ! 1) = Some [] \<and>
   Strength (example_df ! 1) = None \<and>
   DrugName (example_df ! 1) = None \<and>
   Sponsor (example_df ! 1) = None"
proof -
  have h1: "unmatched_submission \<in> set example_sub"
    by (simp add: unmatched_submission_def example_sub_def)
  have h2: "astype_str Before_3 (Application_No unmatched_submission) \<notin>
     set (map (astype_str Before_3 \<circ> prods_Application_No) example_prods)"
    by (simp add: unmatched_submission_def example_prods_def astype_str_def)
  have k: "astype_str Before_3 (Application_No unmatched_submission) = Some ''777''"
    by (simp add: unmatched_submission_def astype_str_def)
  have h3: "Some ''777'' \<notin> set (map (astype_str Before_3 \<circ> apps_Application_No) example_apps)"
    by (simp add: example_apps_def astype_str_def)
  have m: "example_df ! 1 \<in> set example_df"
    by (simp add: example_df_def)
  have n: "Application_No (example_df ! 1) = Some ''777''"
    by (simp add: example_df_def)
  from Merger_unmatched_products [OF h1 h2 Merger_example] h3
  have "\<forall>r\<in>set example_df.
      Application_No r = Some ''777'' \<longrightarrow>
        Form r = Some [] \<and> Strength r = None \<and> DrugName r = None \<and> Sponsor r = None"
    unfolding k by blast
  with h1 h2 h3 m n Merger_example show ?thesis by blast
qed

text \<open>
  The claim as written fails on the example of the specification: the submission of
  application 777 has no product and no application row; its output row has the empty
  string as \<open>Form\<close>, and \<open>Strength\<close>, \<open>DrugName\<close> and \<open>Sponsor\<close> are missing, not
  empty strings.
\<close>

theorem Merger_unmatched_fields_missing:
  "Merger Before_3 example_sub example_apps example_prods = Inr example_df \<and>
   Merger From_3 example_sub example_apps example_prods = Inr example_df \<and>
   Application_No (example_df ! 1) = Some ''777'' \<and>
   Some ''777'' \<notin> set (map (astype_str Before_3 \<circ> prods_Application_No) example_prods) \<and>
   Some ''777'' \<notin> set (map (astype_str Before_3 \<circ> apps_Application_No) example_apps) \<and>
   Form (example_df ! 1) = Some [] \<and>
   Strength (example_df ! 1) = None \<and>
   DrugName (example_df ! 1) = None \<and>
   Sponsor (example_df ! 1) = None \<and>
   Strength (example_df ! 1) \<noteq> Some [] \<and>
   DrugName (example_df ! 1) \<noteq> Some [] \<and>
   Sponsor (example_df ! 1) \<noteq> Some []"
  using Merger_example [of Before_3] Merger_example [of From_3]
  by (simp add: example_df_def example_prods_def example_apps_def astype_str_def)

section \<open>The code maps\<close>

lemma replace_dict_submission_type:
  "replace_dict submission_type_map c =
     map_option (\<lambda>c. if c = ''AP'' then ''Abbreviated NDA''
                      else if c = ''TP'' then ''Therapeutic''
                      else if c = ''ORIG'' then ''Original''
                      else if c = ''SUPPL'' then ''Supplemental'' else c) c"
  by (cases c) (simp_all add: replace_dict_def submission_type_map_def)

lemma status_relabel:
  "fillna_series c (series_map status_labels c) =
     map_option (\<lambda>c. if c = ''AP'' then ''Approved''
                      else if c = ''TA'' then ''Tentative Approval'' else c) c"
  by (cases c) (simp_all add: fillna_series_def series_map_def status_labels_def)

lemma type_relabel:
  "fillna_series c (series_map type_labels c) =
     map_option (\<lambda>c. if c = ''ORIG'' then ''Original''
                      else if c = ''SUPPL'' then ''Supplemental''
                      else if c = ''AP'' then ''Abbreviated NDA''
                      else if c = ''TP'' then ''Therapeutic'' else c) c"
  by (cases c) (simp_all add: fillna_series_def series_map_def type_labels_def)

lemma fillna_Unknown: "fillna ''Unknown'' c = Some (case c of None \<Rightarrow> ''Unknown'' | Some v \<Rightarrow> v)"
  by (cases c) (simp_all add: fillna_def)

lemma datetimelike_filter:
  "list_all (\<lambda>r. datetimelike (Submission_Date r)) (filter (\<lambda>r. Submission_Date r \<noteq> None) df) =
     list_all (\<lambda>r. datetimelike (Submission_Date r)) df"
  by (induction df) auto

lemma load_data_cases:
  "load_data df =
     (if list_all (\<lambda>r. datetimelike (Submission_Date r)) df
      then Inr (map (\<lambda>r. \<lparr>Application_No = Application_No r,
               Submission_Type =
                 map_option (\<lambda>c. if c = ''ORIG'' then ''Original''
                                  else if c = ''SUPPL'' then ''Supplemental''
                                  else if c = ''AP'' then ''Abbreviated NDA''
                                  else if c = ''TP'' then ''Therapeutic'' else c)
                   (Submission_Type r),
               Submission_No = Submission_No r,
               Status =
                 map_option (\<lambda>c. if c = ''AP'' then ''Approved''
                                  else if c = ''TA'' then ''Tentative Approval'' else c)
                   (Status r),
               Submission_Date = Submission_Date r,
               ReviewPriority = ReviewPriority r,
               Sponsor = Some (case Sponsor r of None \<Rightarrow> ''Unknown'' | Some v \<Rightarrow> v),
               Form = Form r,
               Strength = Strength r,
               DrugName = Some (case DrugName r of None \<Rightarrow> ''Unknown'' | Some v \<Rightarrow> v),
               Submission_Year = dt_year (Submission_Date r)\<rparr>)
         (filter (\<lambda>r. Submission_Date r \<noteq> None) df))
      else Inl (AttributeError ''Can only use .dt accessor with datetimelike values''))"
proof -
  have d: "list_all (\<lambda>r. datetimelike (Submission_Date r))
             (map (\<lambda>r. r\<lparr>DrugName := fillna ''Unknown'' (DrugName r)\<rparr>)
               (map (\<lambda>r. r\<lparr>Sponsor := fillna ''Unknown'' (Sponsor r)\<rparr>)
                 (map (\<lambda>r. r\<lparr>Submission_Type := fillna_series (Submission_Type r)
                                (series_map type_labels (Submission_Type r))\<rparr>)
                   (map (\<lambda>r. r\<lparr>Status := fillna_series (Status r)
                                  (series_map status_labels (Status r))\<rparr>)
                     (filter (\<lambda>r. Submission_Date r \<noteq> None) df))))) =
           list_all (\<lambda>r. datetimelike (Submission_Date r))
             (filter (\<lambda>r. Submission_Date r \<noteq> None) df)"
    by (simp add: list_all_iff)
  show ?thesis
    unfolding load_data_def Let_def d datetimelike_filter
    by (simp add: with_year_def status_relabel type_relabel fillna_Unknown comp_def)
qed

text \<open>
  C5. Every output row of the merge script comes from a submission row whose
  \<open>Submission_Type\<close> it carries relabelled by the map AP to "Abbreviated NDA", TP to
  "Therapeutic", ORIG to "Original", SUPPL to "Supplemental" when it is one of these
  codes and unchanged otherwise, and whose \<open>Status\<close> it carries unchanged: a status
  code AP leaves the merge script as AP. The dashboard's \<open>load_data\<close> is where
  \<open>Status\<close> is relabelled, AP to "Approved" and TA to "Tentative Approval".
\<close>

theorem Merger_relabels_type_not_status:
  "(Merger pd sub apps prods = Inr df \<longrightarrow>
      (\<forall>r\<in>set df. \<exists>s\<in>set sub.
         Application_No r = astype_str pd (Application_No s) \<and>
         Submission_No r = Submission_No s \<and>
         Submission_Date r = Submission_Date s \<and>
         ReviewPriority r = ReviewPriority s \<and>
         Status r = Status s \<and>
         Submission_Type r =
           map_option (\<lambda>c. if c = ''AP'' then ''Abbreviated NDA''
                            else if c = ''TP'' then ''Therapeutic''
                            else if c = ''ORIG'' then ''Original''
                            else if c = ''SUPPL'' then ''Supplemental'' else c)
             (Submission_Type s))) \<and>
   (load_data fr = Inr l \<longrightarrow>
      map Status l =
        map (\<lambda>r. map_option (\<lambda>c. if c = ''AP'' then ''Approved''
                                 else if c = ''TA'' then ''Tentative Approval'' else c)
                    (Status r))
          (filter (\<lambda>r. Submission_Date r \<noteq> None) fr))"
proof (intro conjI impI)
  assume "Merger pd sub apps prods = Inr df"
  then show "\<forall>r\<in>set df. \<exists>s\<in>set sub.
         Application_No r = astype_str pd (Application_No s) \<and>
         Submission_No r = Submission_No s \<and>
         Submission_Date r = Submission_Date s \<and>
         ReviewPriority r = ReviewPriority s \<and>
         Status r = Status s \<and>
         Submission_Type r =
           map_option (\<lambda>c. if c = ''AP'' then ''Abbreviated NDA''
                            else if c = ''TP'' then ''Therapeutic''
                            else if c = ''ORIG'' then ''Original''
                            else if c = ''SUPPL'' then ''Supplemental'' else c)
             (Submission_Type s)"
    using Merger_row_source [of pd sub apps prods df]
    unfolding replace_dict_submission_type by blast
next
  assume "load_data fr = Inr l"
  then show "map Status l =
        map (\<lambda>r. map_option (\<lambda>c. if c = ''AP'' then ''Approved''
                                 else if c = ''TA'' then ''Tentative Approval'' else c)
                    (Status r))
          (filter (\<lambda>r. Submission_Date r \<noteq> None) fr)"
    by (auto simp: load_data_cases comp_def split: if_splits)
qed

lemma load_data_excel: "load_data excel_frame = Inr excel_loaded"
  by (simp add: load_data_cases excel_frame_def excel_loaded_def)

theorem Merger_relabels_type_not_status_witness:
  "Merger Before_3 example_sub example_apps example_prods = Inr example_df \<and>
   example_df ! 0 \<in> set example_df \<and>
   (\<exists>s\<in>set example_sub.
      Status (example_df ! 0) = Status s \<and>
      Submission_Type (example_df ! 0) =
        map_option (\<lambda>c. if c = ''AP'' then ''Abbreviated NDA''
                         else if c = ''TP'' then ''Therapeutic''
                         else if c = ''ORIG'' then ''Original''
                         else if c = ''SUPPL'' then ''Supplemental'' else c)
          (Submission_Type s)) \<and>
   map Status example_df = [Some ''AP'', Some ''TA''] \<and>
   map Submission_Type example_df = [Some ''Supplemental'', Some ''Original''] \<and>
   load_data excel_frame = Inr excel_loaded \<and>
   map Status excel_loaded = [Some ''Approved'']"
proof -
  have v: "map Status example_df = [Some ''AP'', Some ''TA'']"
    "map Submission_Type example_df = [Some ''Supplemental'', Some ''Original'']"
    by (simp_all add: example_df_def)
  have m: "example_df ! 0 \<in> set example_df"
    by (simp add: example_df_def)
  have c: "filter (\<lambda>r. Submission_Date r \<noteq> None) excel_frame = [excel_frame ! 1]"
    by (simp add: excel_frame_def)
  note t = Merger_relabels_type_not_status
    [of Before_3 example_sub example_apps example_prods example_df excel_frame excel_loaded]
  from t Merger_example have "\<forall>r\<in>set example_df. \<exists>s\<in>set example_sub.
      Status r = Status s \<and>
      Submission_Type r =
        map_option (\<lambda>c. if c = ''AP'' then ''Abbreviated NDA''
                         else if c = ''TP'' then ''Therapeutic''
                         else if c = ''ORIG'' then ''Original''
                         else if c = ''SUPPL'' then ''Supplemental'' else c)
          (Submission_Type s)"
    by blast
  moreover from t load_data_excel have "map Status excel_loaded = [Some ''Approved'']"
    unfolding c by (simp add: excel_frame_def)
  ultimately show ?thesis
    using v m Merger_example load_data_excel by blast
qed

section \<open>Loading the merged file\<close>

lemma Merger_type_not_code:
  assumes "Merger pd sub apps prods = Inr df" and "r \<in> set df"
  shows "Submission_Type r \<notin> Some ` {''ORIG'', ''SUPPL'', ''AP'', ''TP''}"
proof -
  from Merger_row_source [OF assms] obtain s where "s \<in> set sub"
    and "Submission_Type r = replace_dict submission_type_map (Submission_Type s)"
    by blast
  then show ?thesis
    by (cases "Submission_Type s") (auto simp: replace_dict_submission_type)
qed

lemma type_relabel_id:
  assumes "c \<notin> Some ` {''ORIG'', ''SUPPL'', ''AP'', ''TP''}"
  shows "map_option (\<lambda>c. if c = ''ORIG'' then ''Original''
                          else if c = ''SUPPL'' then ''Supplemental''
                          else if c = ''AP'' then ''Abbreviated NDA''
                          else if c = ''TP'' then ''Therapeutic'' else c) c = c"
  using assms by (cases c) auto

lemma dt_year_present:
  "datetimelike d \<Longrightarrow> d \<noteq> None \<Longrightarrow> dt_year d \<noteq> None"
  by (cases d rule: dt_year.cases) simp_all

text \<open>
  C8, as amended. On a merged table in which every \<open>Submission_Date\<close> that is present
  has parsed as a date, \<open>load_data\<close> keeps exactly the rows whose \<open>Submission_Date\<close>
  is not missing, in their order. In each of them it relabels \<open>Status\<close> (AP to
  "Approved", TA to "Tentative Approval", the rest unchanged), replaces a missing
  \<open>Sponsor\<close> or \<open>DrugName\<close> by "Unknown", adds \<open>Submission_Year\<close>, the year of
  \<open>Submission_Date\<close>, which every loaded row has, and keeps every other field; its map
  on \<open>Submission_Type\<close> changes nothing there, since a table that the merge script
  writes has none of the four codes left. A row whose \<open>Submission_Date\<close> did not parse
  is not discarded: the date column is then not one of timestamps, and \<open>load_data\<close>
  raises at the year.
\<close>

theorem load_data_contract:
  "(list_all (\<lambda>r. datetimelike (Submission_Date r)) fr \<and>
    (\<forall>r\<in>set fr. Submission_Type r \<notin> Some ` {''ORIG'', ''SUPPL'', ''AP'', ''TP''}) \<longrightarrow>
      load_data fr =
        Inr (map (\<lambda>r. \<lparr>Application_No = Application_No r,
               Submission_Type = Submission_Type r,
               Submission_No = Submission_No r,
               Status =
                 map_option (\<lambda>c. if c = ''AP'' then ''Approved''
                                  else if c = ''TA'' then ''Tentative Approval'' else c)
                   (Status r),
               Submission_Date = Submission_Date r,
               ReviewPriority = ReviewPriority r,
               Sponsor = Some (case Sponsor r of None \<Rightarrow> ''Unknown'' | Some v \<Rightarrow> v),
               Form = Form r,
               Strength = Strength r,
               DrugName = Some (case DrugName r of None \<Rightarrow> ''Unknown'' | Some v \<Rightarrow> v),
               Submission_Year = dt_year (Submission_Date r)\<rparr>)
          (filter (\<lambda>r. Submission_Date r \<noteq> None) fr))) \<and>
   (load_data fr = Inr l \<longrightarrow>
      (\<forall>r\<in>set l. \<exists>t. Submission_Date r = Some (Parsed t) \<and> Submission_Year r = Some (year t))) \<and>
   (\<not> list_all (\<lambda>r. datetimelike (Submission_Date r)) fr \<longrightarrow>
      load_data fr = Inl (AttributeError ''Can only use .dt accessor with datetimelike values'')) \<and>
   (Merger pd sub apps prods = Inr df \<longrightarrow>
      (\<forall>r\<in>set df. Submission_Type r \<notin> Some ` {''ORIG'', ''SUPPL'', ''AP'', ''TP''}))"
proof (intro conjI impI)
  assume a: "list_all (\<lambda>r. datetimelike (Submission_Date r)) fr \<and>
    (\<forall>r\<in>set fr. Submission_Type r \<notin> Some ` {''ORIG'', ''SUPPL'', ''AP'', ''TP''})"
  have "map_option (\<lambda>c. if c = ''ORIG'' then ''Original''
                          else if c = ''SUPPL'' then ''Supplemental''
                          else if c = ''AP'' then ''Abbreviated NDA''
                          else if c = ''TP'' then ''Therapeutic'' else c)
          (Submission_Type r) = Submission_Type r"
    if "r \<in> set (filter (\<lambda>r. Submission_Date r \<noteq> None) fr)" for r
    using that a by (intro type_relabel_id) simp
  then show "load_data fr =
        Inr (map (\<lambda>r. \<lparr>Application_No = Application_No r,
               Submission_Type = Submission_Type r,
               Submission_No = Submission_No r,
               Status =
                 map_option (\<lambda>c. if c = ''AP'' then ''Approved''
                                  else if c = ''TA'' then ''Tentative Approval'' else c)
                   (Status r),
               Submission_Date = Submission_Date r,
               ReviewPriority = ReviewPriority r,
               Sponsor = Some (case Sponsor r of None \<Rightarrow> ''Unknown'' | Some v \<Rightarrow> v),
               Form = Form r,
               Strength = Strength r,
               DrugName = Some (case DrugName r of None \<Rightarrow> ''Unknown'' | Some v \<Rightarrow> v),
               Submission_Year = dt_year (Submission_Date r)\<rparr>)
          (filter (\<lambda>r. Submission_Date r \<noteq> None) fr))"
    using a by (simp add: load_data_cases cong: map_cong)
next
  assume l: "load_data fr = Inr l"
  show "\<forall>r\<in>set l. \<exists>t. Submission_Date r = Some (Parsed t) \<and> Submission_Year r = Some (year t)"
  proof
    fix r assume r: "r \<in> set l"
    from l have d: "list_all (\<lambda>r. datetimelike (Submission_Date r)) fr"
      by (simp add: load_data_cases split: if_splits)
    with l r obtain r0 where r0: "r0 \<in> set fr" "Submission_Date r0 \<noteq> None"
      and dr: "Submission_Date r = Submission_Date r0"
      and yr: "Submission_Year r = dt_year (Submission_Date r0)"
      by (auto simp: load_data_cases)
    from d r0(1) have "datetimelike (Submission_Date r0)" by (simp add: list_all_iff)
    with r0(2) obtain t where "Submission_Date r0 = Some (Parsed t)"
      by (cases "Submission_Date r0" rule: dt_year.cases) simp_all
    with dr yr show "\<exists>t. Submission_Date r = Some (Parsed t) \<and> Submission_Year r = Some (year t)"
      by simp
  qed
next
  assume "\<not> list_all (\<lambda>r. datetimelike (Submission_Date r)) fr"
  then show "load_data fr = Inl (AttributeError ''Can only use .dt accessor with datetimelike values'')"
    by (simp add: load_data_cases)
next
  assume "Merger pd sub apps prods = Inr df"
  then show "\<forall>r\<in>set df. Submission_Type r \<notin> Some ` {''ORIG'', ''SUPPL'', ''AP'', ''TP''}"
    using Merger_type_not_code by blast
qed

theorem load_data_contract_witness:
  "list_all (\<lambda>r. datetimelike (Submission_Date r)) excel_frame \<and>
   list_all (\<lambda>r. Submission_Type r \<notin> Some ` {''ORIG'', ''SUPPL'', ''AP'', ''TP''})
     excel_frame \<and>
   load_data excel_frame = Inr excel_loaded \<and>
   excel_loaded ! 0 \<in> set excel_loaded \<and>
   Submission_Year (excel_loaded ! 0) = Some 1999 \<and>
   \<not> list_all (\<lambda>r. datetimelike (Submission_Date r)) unparsed_frame \<and>
   load_data unparsed_frame =
     Inl (AttributeError ''Can only use .dt accessor with datetimelike values'') \<and>
   Merger Before_3 example_sub example_apps example_prods = Inr example_df \<and>
   example_df ! 0 \<in> set example_df \<and>
   Submission_Type (example_df ! 0) \<notin> Some ` {''ORIG'', ''SUPPL'', ''AP'', ''TP''}"
proof -
  have h1: "list_all (\<lambda>r. datetimelike (Submission_Date r)) excel_frame"
    by (simp add: excel_frame_def)
  have h2: "list_all (\<lambda>r. Submission_Type r \<notin> Some ` {''ORIG'', ''SUPPL'', ''AP'', ''TP''})
     excel_frame"
    by (simp add: excel_frame_def)
  then have h2': "\<forall>r\<in>set excel_frame.
      Submission_Type r \<notin> Some ` {''ORIG'', ''SUPPL'', ''AP'', ''TP''}"
    by (simp only: list_all_iff)
  have m: "excel_loaded ! 0 \<in> set excel_loaded" by (simp add: excel_loaded_def)
  have m2: "example_df ! 0 \<in> set example_df" by (simp add: example_df_def)
  note c = load_data_contract
    [of excel_frame excel_loaded Before_3 example_sub example_apps example_prods example_df]
  from c h1 h2' have v: "load_data excel_frame = Inr excel_loaded"
    by (simp add: excel_frame_def excel_loaded_def)
  with c m obtain t where "Submission_Date (excel_loaded ! 0) = Some (Parsed t)"
    and "Submission_Year (excel_loaded ! 0) = Some (year t)"
    by blast
  then have y: "Submission_Year (excel_loaded ! 0) = Some 1999"
    by (simp add: excel_loaded_def)
  from c Merger_example m2
  have n: "Submission_Type (example_df ! 0) \<notin> Some ` {''ORIG'', ''SUPPL'', ''AP'', ''TP''}"
    by blast
  have u: "\<not> list_all (\<lambda>r. datetimelike (Submission_Date r)) unparsed_frame"
    by (simp add: unparsed_frame_def)
  from load_data_contract [of unparsed_frame] u
  have e: "load_data unparsed_frame =
     Inl (AttributeError ''Can only use .dt accessor with datetimelike values'')"
    by blast
  from h1 h2 v m y u e Merger_example m2 n show ?thesis by blast
qed

text \<open>
  The claim as written fails on a frame with a date that does not parse: the claim has
  its row discarded with the row whose date is missing, which would leave the empty
  frame; \<open>load_data\<close> raises instead.
\<close>

theorem load_data_raises_on_unparsed_date:
  "map Submission_Date unparsed_frame = [Some (Unparsed ''pending''), None] \<and>
   load_data unparsed_frame \<noteq> Inr [] \<and>
   load_data unparsed_frame =
     Inl (AttributeError ''Can only use .dt accessor with datetimelike values'')"
  by (simp add: load_data_cases unparsed_frame_def)

section \<open>Missing keys\<close>

lemma clean_form_cell_Some:
  "clean_form_cell (Some s) = Some (str_replace CHR '';'' '' / '' s)"
  by (simp add: clean_form_cell_def fillna_def series_str_replace_def)

lemma Merger_product_fields:
  assumes M: "Merger pd sub apps prods = Inr df"
    and r: "r \<in> set df" "Application_No r = Some k"
    and k: "Some k \<in> set (map (astype_str pd \<circ> prods_Application_No) prods)"
  shows "\<exists>forms strengths names.
           dropna (map prods_Form
             (filter (\<lambda>p. astype_str pd (prods_Application_No p) = Some k) prods)) =
             map Str forms \<and>
           dropna (map prods_Strength
             (filter (\<lambda>p. astype_str pd (prods_Application_No p) = Some k) prods)) =
             map Str strengths \<and>
           dropna (map prods_DrugName
             (filter (\<lambda>p. astype_str pd (prods_Application_No p) = Some k) prods)) =
             map Str names \<and>
           Form r = Some (str_replace CHR '';'' '' / '' (join '', '' forms)) \<and>
           Strength r = Some (join '', '' strengths) \<and>
           DrugName r = Some (join '', '' names)"
proof -
  let ?P = "map (prods_astype pd) prods"
  let ?G = "filter (\<lambda>p. astype_str pd (prods_Application_No p) = Some k) prods"
  from M r(1) obtain s a p t where
    t: "groupby_agg ?P = Inr t"
    and p: "p \<in> matches prods_Application_No t (astype_str pd (Application_No s))"
    and row: "r = output_row pd s a p"
    by (rule Merger_row_origin)
  from r(2) row have "astype_str pd (Application_No s) = Some k" by simp
  with p have pr: "p = Some (group_row ?P k)"
    by (simp add: matches_aggregated [OF t k])
  have tx: "\<And>q. q \<in> set ?P \<Longrightarrow> prods_Application_No q \<noteq> None \<Longrightarrow> text_fields q"
    using t by (rule groupby_agg_Inr_text)
  have f: "dropna (map prods_Form (group_of ?P k)) =
             map Str (strings (dropna (map prods_Form (group_of ?P k))))"
    and s: "dropna (map prods_Strength (group_of ?P k)) =
             map Str (strings (dropna (map prods_Strength (group_of ?P k))))"
    and d: "dropna (map prods_DrugName (group_of ?P k)) =
             map Str (strings (dropna (map prods_DrugName (group_of ?P k))))"
    by (rule group_values_text, use tx in \<open>simp add: text_fields_def\<close>)+
  have g: "map prods_Form (group_of ?P k) = map prods_Form ?G"
    "map prods_Strength (group_of ?P k) = map prods_Strength ?G"
    "map prods_DrugName (group_of ?P k) = map prods_DrugName ?G"
    by (simp_all add: group_of_astype prods_astype_def comp_def)
  show ?thesis
    using f s d unfolding g row pr
    by (simp add: group_row_def joined_def g clean_form_cell_Some) blast
qed

lemma Merger_missing_key_fields:
  assumes M: "Merger pd sub apps prods = Inr df"
    and r: "r \<in> set df" "Application_No r = None"
  shows "Form r = Some [] \<and> Strength r = None \<and> DrugName r = None"
proof -
  from M r(1) obtain s a p t where
    t: "groupby_agg (map (prods_astype pd) prods) = Inr t"
    and p: "p \<in> matches prods_Application_No t (astype_str pd (Application_No s))"
    and row: "r = output_row pd s a p"
    by (rule Merger_row_origin)
  from r(2) row have "astype_str pd (Application_No s) = None" by simp
  with p have "p = None"
    by (simp add: matches_aggregated_none [OF t])
  then show ?thesis by (simp add: row)
qed

lemma Merger_joins_application:
  assumes M: "Merger pd sub apps prods = Inr df"
    and s: "s \<in> set sub"
    and a: "a \<in> set apps"
      "astype_str pd (apps_Application_No a) = astype_str pd (Application_No s)"
  shows "\<exists>r\<in>set df.
           Application_No r = astype_str pd (Application_No s) \<and>
           Submission_No r = Submission_No s \<and> Status r = Status s \<and>
           Submission_Date r = Submission_Date s \<and> ReviewPriority r = ReviewPriority s \<and>
           Sponsor r = apps_Sponsor a"
proof -
  let ?k = "astype_str pd (Application_No s)"
  from M obtain t where t: "groupby_agg (map (prods_astype pd) prods) = Inr t"
    by (rule Merger_Inr)
  have "apps_astype pd a \<in> set (map (apps_astype pd) apps)" using a(1) by simp
  moreover have "apps_Application_No (apps_astype pd a) = ?k"
    using a(2) by (simp add: apps_astype_def)
  ultimately have m: "Some (apps_astype pd a) \<in>
      matches apps_Application_No (map (apps_astype pd) apps) ?k"
    unfolding matches_def by force
  obtain p where p: "p \<in> matches prods_Application_No t ?k"
    using matches_nonempty [of prods_Application_No t ?k] by blast
  have "output_row pd s (Some (apps_astype pd a)) p \<in> set df"
    using M t s m p by (rule Merger_row_exists)
  then show ?thesis
    by (intro bexI [of _ "output_row pd s (Some (apps_astype pd a)) p"])
      (simp_all add: apps_astype_def)
qed

lemma nan_group:
  "filter (\<lambda>p. astype_str Before_3 (prods_Application_No p) = Some ''nan'') prods =
     filter (\<lambda>p. prods_Application_No p = None \<or> prods_Application_No p = Some ''nan'') prods"
  by (rule filter_cong [OF refl]) (auto simp: astype_str_def split: option.splits)

text \<open>
  C10, as amended. What the string conversion of the join key makes of a missing
  \<open>Application_No\<close> depends on the pandas that runs the script. Before pandas 3 it is
  the text \<open>nan\<close>: a submission row with a missing key then joins every application
  row whose key was missing, in an output row of key \<open>nan\<close> with that application's
  sponsor, and, when some product row has a missing key, every output row of key
  \<open>nan\<close> carries the aggregate of the product rows whose key is missing or reads
  \<open>nan\<close>. From pandas 3 on the key stays missing: the submission row still joins
  every application row whose key is missing, but the aggregation drops the product rows
  with a missing key, and every output row with a missing key has the empty string as
  \<open>Form\<close> and a missing \<open>Strength\<close> and \<open>DrugName\<close>.
\<close>

theorem Merger_missing_key_by_pandas:
  assumes "s \<in> set sub" and "Application_No s = None"
    and "Merger pd sub apps prods = Inr df"
  shows "(pd = Before_3 \<longrightarrow>
      (\<forall>a\<in>set apps. apps_Application_No a = None \<longrightarrow>
         (\<exists>r\<in>set df.
            Application_No r = Some ''nan'' \<and> Submission_No r = Submission_No s \<and>
            Status r = Status s \<and> Submission_Date r = Submission_Date s \<and>
            ReviewPriority r = ReviewPriority s \<and> Sponsor r = apps_Sponsor a)) \<and>
      ((\<exists>p\<in>set prods. prods_Application_No p = None) \<longrightarrow>
         (\<forall>r\<in>set df. Application_No r = Some ''nan'' \<longrightarrow>
            (\<exists>forms strengths names.
               dropna (map prods_Form
                 (filter (\<lambda>p. prods_Application_No p = None \<or>
                              prods_Application_No p = Some ''nan'') prods)) = map Str forms \<and>
               dropna (map prods_Strength
                 (filter (\<lambda>p. prods_Application_No p = None \<or>
                              prods_Application_No p = Some ''nan'') prods)) = map Str strengths \<and>
               dropna (map prods_DrugName
                 (filter (\<lambda>p. prods_Application_No p = None \<or>
                              prods_Application_No p = Some ''nan'') prods)) = map Str names \<and>
               Form r = Some (str_replace CHR '';'' '' / '' (join '', '' forms)) \<and>
               Strength r = Some (join '', '' strengths) \<and>
               DrugName r = Some (join '', '' names))))) \<and>
    (pd = From_3 \<longrightarrow>
      (\<forall>a\<in>set apps. apps_Application_No a = None \<longrightarrow>
         (\<exists>r\<in>set df.
            Application_No r = None \<and> Submission_No r = Submission_No s \<and>
            Status r = Status s \<and> Submission_Date r = Submission_Date s \<and>
            ReviewPriority r = ReviewPriority s \<and> Sponsor r = apps_Sponsor a)) \<and>
      (\<forall>r\<in>set df. Application_No r = None \<longrightarrow>
         Form r = Some [] \<and> Strength r = None \<and> DrugName r = None))"
proof (intro conjI impI ballI)
  fix a
  assume pd: "pd = Before_3" and a: "a \<in> set apps" "apps_Application_No a = None"
  from Merger_joins_application [OF assms(3,1) a(1)] a(2) assms(2) pd
  show "\<exists>r\<in>set df.
            Application_No r = Some ''nan'' \<and> Submission_No r = Submission_No s \<and>
            Status r = Status s \<and> Submission_Date r = Submission_Date s \<and>
            ReviewPriority r = ReviewPriority s \<and> Sponsor r = apps_Sponsor a"
    by (simp add: astype_str_def)
next
  fix r
  assume pd: "pd = Before_3" and p: "\<exists>p\<in>set prods. prods_Application_No p = None"
    and r: "r \<in> set df" "Application_No r = Some ''nan''"
  from p obtain q where "q \<in> set prods" "prods_Application_No q = None" by blast
  then have "(astype_str pd \<circ> prods_Application_No) q = Some ''nan''"
    by (simp add: pd astype_str_def)
  with \<open>q \<in> set prods\<close> have "Some ''nan'' \<in> (astype_str pd \<circ> prods_Application_No) ` set prods"
    by (metis imageI)
  then have k: "Some ''nan'' \<in> set (map (astype_str pd \<circ> prods_Application_No) prods)"
    by simp
  from Merger_product_fields [OF assms(3) r k]
  show "\<exists>forms strengths names.
               dropna (map prods_Form
                 (filter (\<lambda>p. prods_Application_No p = None \<or>
                              prods_Application_No p = Some ''nan'') prods)) = map Str forms \<and>
               dropna (map prods_Strength
                 (filter (\<lambda>p. prods_Application_No p = None \<or>
                              prods_Application_No p = Some ''nan'') prods)) = map Str strengths \<and>
               dropna (map prods_DrugName
                 (filter (\<lambda>p. prods_Application_No p = None \<or>
                              prods_Application_No p = Some ''nan'') prods)) = map Str names \<and>
               Form r = Some (str_replace CHR '';'' '' / '' (join '', '' forms)) \<and>
               Strength r = Some (join '', '' strengths) \<and>
               DrugName r = Some (join '', '' names)"
    unfolding pd nan_group .
next
  fix a
  assume pd: "pd = From_3" and a: "a \<in> set apps" "apps_Application_No a = None"
  from Merger_joins_application [OF assms(3,1) a(1)] a(2) assms(2) pd
  show "\<exists>r\<in>set df.
            Application_No r = None \<and> Submission_No r = Submission_No s \<and>
            Status r = Status s \<and> Submission_Date r = Submission_Date s \<and>
            ReviewPriority r = ReviewPriority s \<and> Sponsor r = apps_Sponsor a"
    by (simp add: astype_str_def)
next
  fix r
  assume "r \<in> set df" "Application_No r = None"
  with assms(3) show "Form r = Some []" "Strength r = None" "DrugName r = None"
    using Merger_missing_key_fields by blast+
qed

lemma Merger_keyless_before_3:
  "Merger Before_3 [keyless_submission] [keyless_application] keyless_prods =
     Inr keyless_df_before_3"
  by (simp add: Merger_def merge_and_clean_def keyless_submission_def keyless_application_def
      keyless_prods_def keyless_df_before_3_def Let_def
      sub_astype_def apps_astype_def prods_astype_def astype_str_def groupby_agg_def
      agg_column_def group_keys_def group_of_def agg_join_def py_join_def
      merge_apps_def merge_prods_def merge_left_def add_sponsor_def
      add_products_def clean_submission_type_def clean_form_def clean_form_cell_def
      fillna_def series_str_replace_def replace_dict_def submission_type_map_def)

lemma Merger_keyless_from_3:
  "Merger From_3 [keyless_submission] [keyless_application] keyless_prods =
     Inr keyless_df_from_3"
  by (simp add: Merger_def merge_and_clean_def keyless_submission_def keyless_application_def
      keyless_prods_def keyless_df_from_3_def Let_def
      sub_astype_def apps_astype_def prods_astype_def astype_str_def groupby_agg_def
      agg_column_def group_keys_def group_of_def agg_join_def py_join_def
      merge_apps_def merge_prods_def merge_left_def add_sponsor_def
      add_products_def clean_submission_type_def clean_form_def clean_form_cell_def
      fillna_def series_str_replace_def replace_dict_def submission_type_map_def)

theorem Merger_missing_key_by_pandas_witness:
  "keyless_submission \<in> set [keyless_submission] \<and>
   Application_No keyless_submission = None \<and>
   keyless_application \<in> set [keyless_application] \<and>
   apps_Application_No keyless_application = None \<and>
   (\<exists>p\<in>set keyless_prods. prods_Application_No p = None) \<and>
   Merger Before_3 [keyless_submission] [keyless_application] keyless_prods =
     Inr keyless_df_before_3 \<and>
   (\<exists>r\<in>set keyless_df_before_3. Application_No r = Some ''nan'' \<and> Sponsor r = Some ''Acme'') \<and>
   keyless_df_before_3 ! 0 \<in> set keyless_df_before_3 \<and>
   Application_No (keyless_df_before_3 ! 0) = Some ''nan'' \<and>
   (\<exists>names. dropna (map prods_DrugName keyless_prods) = map Str names \<and>
             DrugName (keyless_df_before_3 ! 0) = Some (join '', '' names)) \<and>
   DrugName (keyless_df_before_3 ! 0) = Some ''DrugX, DrugY'' \<and>
   Merger From_3 [keyless_submission] [keyless_application] keyless_prods =
     Inr keyless_df_from_3 \<and>
   (\<exists>r\<in>set keyless_df_from_3. Application_No r = None \<and> Sponsor r = Some ''Acme'') \<and>
   keyless_df_from_3 ! 0 \<in> set keyless_df_from_3 \<and>
   Application_No (keyless_df_from_3 ! 0) = None \<and>
   Form (keyless_df_from_3 ! 0) = Some [] \<and>
   Strength (keyless_df_from_3 ! 0) = None \<and>
   DrugName (keyless_df_from_3 ! 0) = None"
proof -
  have h1: "keyless_submission \<in> set [keyless_submission]" by simp
  have h2: "Application_No keyless_submission = None"
    by (simp add: keyless_submission_def)
  have h3: "keyless_application \<in> set [keyless_application]" by simp
  have h4: "apps_Application_No keyless_application = None"
    by (simp add: keyless_application_def)
  have h5: "\<exists>p\<in>set keyless_prods. prods_Application_No p = None"
    by (simp add: keyless_prods_def)
  have sp: "apps_Sponsor keyless_application = Some ''Acme''"
    by (simp add: keyless_application_def)
  have g: "filter (\<lambda>p. prods_Application_No p = None \<or> prods_Application_No p = Some ''nan'')
             keyless_prods = keyless_prods"
    by (simp add: keyless_prods_def)
  have b0: "keyless_df_before_3 ! 0 \<in> set keyless_df_before_3"
    "Application_No (keyless_df_before_3 ! 0) = Some ''nan''"
    "DrugName (keyless_df_before_3 ! 0) = Some ''DrugX, DrugY''"
    by (simp_all add: keyless_df_before_3_def)
  have f0: "keyless_df_from_3 ! 0 \<in> set keyless_df_from_3"
    "Application_No (keyless_df_from_3 ! 0) = None"
    by (simp_all add: keyless_df_from_3_def)
  note tb = Merger_missing_key_by_pandas [OF h1 h2 Merger_keyless_before_3]
  note tf = Merger_missing_key_by_pandas [OF h1 h2 Merger_keyless_from_3]
  from tb h3 h4 sp have b1:
    "\<exists>r\<in>set keyless_df_before_3. Application_No r = Some ''nan'' \<and> Sponsor r = Some ''Acme''"
    by auto
  from tb h5 b0(1,2) have b2:
    "\<exists>names. dropna (map prods_DrugName keyless_prods) = map Str names \<and>
             DrugName (keyless_df_before_3 ! 0) = Some (join '', '' names)"
    unfolding g by blast
  from tf h3 h4 sp have f1:
    "\<exists>r\<in>set keyless_df_from_3. Application_No r = None \<and> Sponsor r = Some ''Acme''"
    by auto
  from tf f0 have f2: "Form (keyless_df_from_3 ! 0) = Some []"
    "Strength (keyless_df_from_3 ! 0) = None" "DrugName (keyless_df_from_3 ! 0) = None"
    by blast+
  from h1 h2 h3 h4 h5 b0 b1 b2 f0 f1 f2 Merger_keyless_before_3 Merger_keyless_from_3
  show ?thesis by blast
qed

text \<open>
  The claim as written fails from pandas 3 on: the missing key of the submission stays
  missing in the output, it is not the text \<open>nan\<close>, and the row gets none of the
  products whose key is missing.
\<close>

theorem Merger_missing_key_stays_missing:
  "astype_str From_3 None = None \<and>
   Application_No keyless_submission = None \<and>
   map prods_Application_No keyless_prods = [None, None] \<and>
   Merger From_3 [keyless_submission] [keyless_application] keyless_prods =
     Inr keyless_df_from_3 \<and>
   map Application_No keyless_df_from_3 = [None] \<and>
   map Application_No keyless_df_from_3 \<noteq> [Some ''nan''] \<and>
   map Sponsor keyless_df_from_3 = [Some ''Acme''] \<and>
   map Form keyless_df_from_3 = [Some []] \<and>
   map Strength keyless_df_from_3 = [None] \<and>
   map DrugName keyless_df_from_3 = [None]"
  using Merger_keyless_from_3
  by (simp add: astype_str_def keyless_submission_def keyless_prods_def keyless_df_from_3_def)

section \<open>The dashboard's filters\<close>

lemma set_unique_from: "set (unique_from seen xs) = set xs - set seen"
  by (induction xs arbitrary: seen) auto

lemma distinct_unique_from: "distinct (unique_from seen xs)"
  by (induction xs arbitrary: seen) (auto simp: set_unique_from)

lemma set_unique [simp]: "set (unique xs) = set xs"
  by (simp add: unique_def set_unique_from)

lemma distinct_unique [simp]: "distinct (unique xs)"
  by (simp add: unique_def distinct_unique_from)

lemma default_selection_fields:
  assumes "default_selection df = Inr sel"
  shows "search sel = []"
    and "selected_sponsors sel = sponsor_default df"
    and "selected_drugs sel = drug_default df"
    and "selected_status sel = status_options df"
    and "year_slider df = Inr (years sel)"
  using assms by (auto simp: default_selection_def split: sum.splits)

lemma year_slider_Inr:
  assumes "year_slider df = Inr (lo, hi)"
  shows "lo < hi"
  using assms by (auto simp: year_slider_def Let_def split: list.splits if_splits)

lemma filtered_subset:
  assumes "r \<in> set (filtered pd contains df sel)"
  shows "r \<in> set df \<and> Sponsor r \<in> set (selected_sponsors sel) \<and>
         DrugName r \<in> set (selected_drugs sel) \<and> Status r \<in> set (selected_status sel) \<and>
         between (fst (years sel)) (snd (years sel)) (Submission_Year r)"
  using assms by (auto simp: filtered_def Let_def split: if_splits)

text \<open>
  C9. When the sidebar is drawn (the year slider needs two different years in the
  frame), the sponsor filter offers the first 30 distinct sponsors of the loaded frame
  and the drug filter the first 50 distinct drug names; when the user touches nothing,
  the first 10 of the sponsors offered and the first 5 of the drugs offered are selected.
  The page is computed from the filtered frame alone, and under these default selections
  no row whose sponsor is not among the first 10 distinct sponsors, or whose drug name is
  not among the first 5 distinct drug names, is in the table or in the CSV export, whose
  length is the total that the page shows.
\<close>

theorem default_selection_excludes_rows:
  assumes "default_selection df = Inr sel"
  shows "sponsor_options df = take 30 (unique (map Sponsor df)) \<and>
         distinct (sponsor_options df) \<and> length (sponsor_options df) \<le> 30 \<and>
         selected_sponsors sel = take 10 (sponsor_options df) \<and>
         drug_options df = take 50 (unique (map DrugName df)) \<and>
         distinct (drug_options df) \<and> length (drug_options df) \<le> 50 \<and>
         selected_drugs sel = take 5 (drug_options df) \<and>
         fst (years sel) < snd (years sel) \<and>
         dashboard pd contains charts df sel = render charts (filtered pd contains df sel) \<and>
         table (dashboard pd contains charts df sel) = filtered pd contains df sel \<and>
         csv (dashboard pd contains charts df sel) = filtered pd contains df sel \<and>
         total_submissions (dashboard pd contains charts df sel) =
           length (filtered pd contains df sel) \<and>
         (\<forall>r\<in>set df.
            Sponsor r \<notin> set (take 10 (unique (map Sponsor df))) \<or>
            DrugName r \<notin> set (take 5 (unique (map DrugName df))) \<longrightarrow>
              r \<notin> set (filtered pd contains df sel))"
proof -
  note d = default_selection_fields [OF assms]
  have excl: "r \<notin> set (filtered pd contains df sel)"
    if "Sponsor r \<notin> set (take 10 (unique (map Sponsor df))) \<or>
        DrugName r \<notin> set (take 5 (unique (map DrugName df)))" for r
    using that filtered_subset [of r pd contains df sel]
    unfolding d sponsor_default_def drug_default_def by blast
  have y: "fst (years sel) < snd (years sel)"
    using d(5) year_slider_Inr [of df "fst (years sel)" "snd (years sel)"] by simp
  show ?thesis
    using excl y
    by (simp add: d(1-4) sponsor_options_def sponsor_default_def drug_options_def
        drug_default_def dashboard_def render_def min_def)
qed

theorem default_selection_excludes_rows_witness:
  "default_selection demo_frame = Inr demo_selection \<and>
   demo_row ''Acme'' ''D6'' 2001 \<in> set demo_frame \<and>
   DrugName (demo_row ''Acme'' ''D6'' 2001) \<notin>
     set (take 5 (unique (map DrugName demo_frame))) \<and>
   demo_row ''Acme'' ''D6'' 2001 \<notin>
     set (filtered Before_3 (\<lambda>pat s. True) demo_frame demo_selection) \<and>
   selected_drugs demo_selection = take 5 (drug_options demo_frame)"
proof -
  have h: "default_selection demo_frame = Inr demo_selection"
    by (simp add: default_selection_def year_slider_def demo_frame_def demo_row_def
        demo_selection_def status_options_def sponsor_default_def drug_default_def unique_def
        Let_def)
  have m: "demo_row ''Acme'' ''D6'' 2001 \<in> set demo_frame"
    by (simp add: demo_frame_def)
  have n: "DrugName (demo_row ''Acme'' ''D6'' 2001) \<notin>
      set (take 5 (unique (map DrugName demo_frame)))"
    by (simp add: demo_frame_def demo_row_def unique_def)
  from default_selection_excludes_rows [OF h, of Before_3 "\<lambda>pat s. True"] m n
  show ?thesis using h by blast
qed

section \<open>The separator of \<open>Form\<close>\<close>

lemma split_slash_match:
  "str_split '' / '' (CHR '' '' # CHR ''/'' # CHR '' '' # xs) = [] # str_split '' / '' xs"
  by simp

lemma split_slash_other:
  assumes "\<not> (c = CHR '' '' \<and> take 2 cs = ''/ '')"
  shows "str_split '' / '' (c # cs) =
           (case str_split '' / '' cs of [] \<Rightarrow> [[c]] | w # ws \<Rightarrow> (c # w) # ws)"
proof -
  have "take (length '' / '') (c # cs) \<noteq> '' / ''"
  proof
    assume "take (length '' / '') (c # cs) = '' / ''"
    then have "c # take 2 cs = '' / ''" by (simp add: numeral_3_eq_3 numeral_2_eq_2)
    then have "c = CHR '' '' \<and> take 2 cs = ''/ ''" by simp
    with assms show False by simp
  qed
  then show ?thesis by (simp only: str_split.simps) simp
qed

lemma split_semi_match: "str_split '';'' (CHR '';'' # xs) = [] # str_split '';'' xs"
  by simp

lemma split_semi_other:
  "c \<noteq> CHR '';'' \<Longrightarrow>
     str_split '';'' (c # cs) =
       (case str_split '';'' cs of [] \<Rightarrow> [[c]] | w # ws \<Rightarrow> (c # w) # ws)"
  by simp

lemma free_slashes_tl: "free_slashes (c # cs) \<Longrightarrow> free_slashes cs"
proof (cases cs)
  case Nil
  then show ?thesis by simp
next
  case (Cons b ds)
  assume "free_slashes (c # cs)"
  with Cons show ?thesis by (cases ds) simp_all
qed

lemma no_slash_free: "CHR ''/'' \<notin> set s \<Longrightarrow> free_slashes s"
  by (induction s rule: free_slashes.induct) auto

lemma replace_no_leading_slash:
  assumes "free_slashes (CHR '' '' # cs)"
  shows "take 2 (str_replace CHR '';'' '' / '' cs) \<noteq> ''/ ''"
proof (cases cs)
  case Nil
  then show ?thesis by simp
next
  case (Cons b ds)
  show ?thesis
  proof (cases ds)
    case Nil
    with Cons show ?thesis by (auto split: if_splits)
  next
    case (Cons d es)
    with \<open>cs = b # ds\<close> assms show ?thesis by (auto split: if_splits)
  qed
qed

lemma split_replaced:
  assumes "free_slashes s"
  shows "str_split '' / '' (str_replace CHR '';'' '' / '' s) = str_split '';'' s"
  using assms
proof (induction s)
  case Nil
  show ?case by simp
next
  case (Cons c cs)
  from Cons.prems have "free_slashes cs" by (rule free_slashes_tl)
  with Cons.IH have IH:
    "str_split '' / '' (str_replace CHR '';'' '' / '' cs) = str_split '';'' cs"
    by simp
  show ?case
  proof (cases "c = CHR '';''")
    case True
    then have "str_replace CHR '';'' '' / '' (c # cs) =
        CHR '' '' # CHR ''/'' # CHR '' '' # str_replace CHR '';'' '' / '' cs"
      by simp
    then show ?thesis
      using True by (simp only: split_slash_match split_semi_match IH)
  next
    case False
    then have r: "str_replace CHR '';'' '' / '' (c # cs) = c # str_replace CHR '';'' '' / '' cs"
      by simp
    have n: "\<not> (c = CHR '' '' \<and> take 2 (str_replace CHR '';'' '' / '' cs) = ''/ '')"
      using replace_no_leading_slash [of cs] Cons.prems by blast
    have "str_split '' / '' (c # str_replace CHR '';'' '' / '' cs) =
            (case str_split '' / '' (str_replace CHR '';'' '' / '' cs) of
               [] \<Rightarrow> [[c]] | w # ws \<Rightarrow> (c # w) # ws)"
      by (rule split_slash_other [OF n])
    also have "\<dots> = (case str_split '';'' cs of [] \<Rightarrow> [[c]] | w # ws \<Rightarrow> (c # w) # ws)"
      by (simp only: IH)
    also have "\<dots> = str_split '';'' (c # cs)"
      by (rule split_semi_other [OF False, symmetric])
    finally show ?thesis unfolding r .
  qed
qed

lemma replace_removes: "old \<notin> set new \<Longrightarrow> old \<notin> set (str_replace old new s)"
  by (induction s) auto

text \<open>
  C6, as amended. The rewrite of \<open>Form\<close> replaces a missing value by the empty string
  and every \<open>;\<close> of a present value by \<open>" / "\<close>, so that no \<open>;\<close> is left. For
  every \<open>Form\<close> value in which no \<open>/\<close> stands between two characters that are each
  a space or a \<open>;\<close> (so for every value without \<open>/\<close>), splitting the output on
  \<open>" / "\<close> gives the very components that splitting the input on \<open>;\<close> gives, hence
  as many: no component is lost or gained.
\<close>

theorem clean_form_keeps_components:
  assumes "free_slashes s"
  shows "clean_form_cell None = Some [] \<and>
         clean_form_cell (Some s) = Some (str_replace CHR '';'' '' / '' s) \<and>
         CHR '';'' \<notin> set (str_replace CHR '';'' '' / '' s) \<and>
         str_split '' / '' (str_replace CHR '';'' '' / '' s) = str_split '';'' s \<and>
         length (str_split '' / '' (str_replace CHR '';'' '' / '' s)) =
           length (str_split '';'' s)"
  using split_replaced [OF assms] replace_removes [of "CHR '';''" "'' / ''" s]
  by (simp add: clean_form_cell_def fillna_def series_str_replace_def)

theorem clean_form_keeps_components_witness:
  "free_slashes ''SOLUTION/DROPS;OPHTHALMIC'' \<and>
   clean_form_cell (Some ''SOLUTION/DROPS;OPHTHALMIC'') = Some ''SOLUTION/DROPS / OPHTHALMIC'' \<and>
   str_split '' / '' ''SOLUTION/DROPS / OPHTHALMIC'' =
     str_split '';'' ''SOLUTION/DROPS;OPHTHALMIC'' \<and>
   str_split '';'' ''SOLUTION/DROPS;OPHTHALMIC'' = [''SOLUTION/DROPS'', ''OPHTHALMIC'']"
proof -
  have h: "free_slashes ''SOLUTION/DROPS;OPHTHALMIC''" by simp
  have r: "str_replace CHR '';'' '' / '' ''SOLUTION/DROPS;OPHTHALMIC'' =
             ''SOLUTION/DROPS / OPHTHALMIC''"
    by simp
  have v: "str_split '';'' ''SOLUTION/DROPS;OPHTHALMIC'' = [''SOLUTION/DROPS'', ''OPHTHALMIC'']"
    by simp
  from clean_form_keeps_components [OF h] h v show ?thesis unfolding r by simp
qed

text \<open>
  The claim as written fails on a \<open>Form\<close> value in which \<open>" / "\<close> already occurs:
  the input has two components at \<open>;\<close>, the output three at \<open>" / "\<close>.
\<close>

theorem clean_form_gains_component:
  "\<not> free_slashes ''A / B;C'' \<and>
   clean_form_cell (Some ''A / B;C'') = Some ''A / B / C'' \<and>
   str_split '';'' ''A / B;C'' = [''A / B'', ''C''] \<and>
   str_split '' / '' ''A / B / C'' = [''A'', ''B'', ''C''] \<and>
   length (str_split '' / '' ''A / B / C'') \<noteq> length (str_split '';'' ''A / B;C'')"
  by (simp add: clean_form_cell_def fillna_def series_str_replace_def)

section \<open>Failing runs\<close>



















end
